theory Spec2Isabelle
  imports Complex_Main "HOL-Library.AList" "HOL-Library.Char_ord" "HOL-Library.List_Lexorder"
begin

text \<open>
  The content-fetch layer of the site: the error taxonomy, error boundary and retry loop
  of lib/errors, the TTL memory cache of lib/cache and the content manager of
  lib/content-manager, as functions on explicit state.

  \<^item> JavaScript numbers that hold times, durations, counts, page numbers and HTTP
    statuses are integers.
  \<^item> An \<^verbatim>\<open>async\<close> function is a function from the world before the call to its
    outcome, a thrown error (\<open>Inl\<close>) or a value (\<open>Inr\<close>), and the world after; one
    call runs to its end before the next starts.
  \<^item> A cache is a value passed in and returned; the callbacks handed to it act on the
    world (clock, console, upstream). The one cache that the modules of the site share,
    \<^verbatim>\<open>apiCache\<close>, is part of that world, so that a callback can call back into it
    (section "The shared cache of the running site").
  \<^item> Console lines are structured values, one constructor per call site, in place of
    the formatted text.
\<close>

section \<open>Error taxonomy (lib/errors)\<close>

text \<open>
  The class \<^verbatim>\<open>APIError\<close> carries a message, an HTTP status and an optional endpoint
  (its \<^verbatim>\<open>originalError\<close> is never read by the functions below and is left out).
  Its two getters are functions of the status.
\<close>

record APIError =
  message :: string
  status :: int
  endpoint :: "string option"

definition isRetryable :: "APIError \<Rightarrow> bool" where
  "isRetryable e = (status e \<ge> 500 \<or> status e = 429)"

definition isClientError :: "APIError \<Rightarrow> bool" where
  "isClientError e = (status e \<ge> 400 \<and> status e < 500)"

text \<open>
  Whatever a \<^verbatim>\<open>catch\<close> can receive: one constructor per \<^verbatim>\<open>instanceof\<close> test the
  code makes, one for any other \<^verbatim>\<open>Error\<close>, and one for the value \<^verbatim>\<open>undefined\<close>
  (which \<^verbatim>\<open>throw lastError!\<close> throws when nothing was ever assigned).
\<close>

datatype error =
    IsAPIError APIError
  | IsContentNotFoundError string
  | IsNetworkError string
  | IsError string
  | IsUndefined

section \<open>The world outside: clock, console, upstream\<close>

text \<open>
  Console output is kept as structured lines, one constructor per call site, so that
  the level of a line and the values interpolated into it can be read off. The
  \<^verbatim>\<open>logger\<close> of config/api prints \<^verbatim>\<open>info\<close> and \<^verbatim>\<open>success\<close> with \<^verbatim>\<open>console.log\<close>
  and only when debug logs are enabled; \<^verbatim>\<open>warn\<close> and \<^verbatim>\<open>error\<close> always print.
\<close>

datatype level = LogLevel | WarnLevel | ErrorLevel

datatype message =
    CacheHit string
  | CacheMiss string
  | UsingStale string
  | Evicted string
  | Cached string
  | Deleted string
  | Cleared nat
  | CleanedUp nat
  | AuthFailed string string
  | AuthHint
  | ErrorIn string error
  | APIErrorDetail int "string option"
  | AttemptFailed int int
  | FetchingPosts
  | FetchedPosts nat
  | FetchingPost string
  | FetchedPost string
  | PostNotFound string
  | SEOFieldsDebug
  | ErrorFetchingPosts error
  | ErrorFetchingPost string error

record 'u world =
  clock :: int
  console :: "(level \<times> message) list"
  upstream :: 'u

text \<open>
  An \<^verbatim>\<open>async () => T\<close> callback: run in a world, it either throws or returns, and
  leaves a world behind (time may have passed, the upstream may have changed).
\<close>

type_synonym ('a, 'u) thunk = "'u world \<Rightarrow> (error + 'a) \<times> 'u world"

definition console_log :: "message \<Rightarrow> 'u world \<Rightarrow> 'u world" where
  "console_log m w = w\<lparr>console := console w @ [(LogLevel, m)]\<rparr>"

definition console_warn :: "message \<Rightarrow> 'u world \<Rightarrow> 'u world" where
  "console_warn m w = w\<lparr>console := console w @ [(WarnLevel, m)]\<rparr>"

definition console_error :: "message \<Rightarrow> 'u world \<Rightarrow> 'u world" where
  "console_error m w = w\<lparr>console := console w @ [(ErrorLevel, m)]\<rparr>"

text \<open>\<^verbatim>\<open>await new Promise(resolve => setTimeout(resolve, delay))\<close>: the clock moves on
  by the delay (a negative delay fires at once).\<close>

definition setTimeout :: "int \<Rightarrow> 'u world \<Rightarrow> 'u world" where
  "setTimeout delay w = w\<lparr>clock := clock w + max 0 delay\<rparr>"

section \<open>Error boundary (lib/errors)\<close>

definition isAuthenticationError :: "error \<Rightarrow> bool" where
  "isAuthenticationError e = (case e of IsAPIError a \<Rightarrow> status a = 401 | _ \<Rightarrow> False)"

text \<open>\<^verbatim>\<open>context || 'unknown context'\<close>: a missing and an empty context both read as the
  default.\<close>

definition contextOrUnknown :: "string option \<Rightarrow> string" where
  "contextOrUnknown context =
     (case context of None \<Rightarrow> ''unknown context''
      | Some c \<Rightarrow> if c = [] then ''unknown context'' else c)"

definition withErrorBoundary ::
    "('a, 'u) thunk \<Rightarrow> 'a \<Rightarrow> string option \<Rightarrow> ('a, 'u) thunk" where
  "withErrorBoundary fn fallback context w =
     (case fn w of
        (Inr v, w') \<Rightarrow> (Inr v, w')
      | (Inl e, w') \<Rightarrow>
          (Inr fallback,
           (if isAuthenticationError e then
              console_warn AuthHint
                (console_warn
                   (AuthFailed (contextOrUnknown context)
                      (case e of IsAPIError a \<Rightarrow> message a | _ \<Rightarrow> []))
                   w')
            else
              (case e of
                 IsAPIError a \<Rightarrow>
                   console_error (APIErrorDetail (status a) (endpoint a))
                     (console_error (ErrorIn (contextOrUnknown context) e) w')
               | _ \<Rightarrow> console_error (ErrorIn (contextOrUnknown context) e) w'))))"

section \<open>Retry with exponential backoff (lib/errors)\<close>

text \<open>
  What a run of \<^verbatim>\<open>retryWithBackoff\<close> leaves behind: the value or the thrown error, the
  world, and two observations of the run itself: how many times \<^verbatim>\<open>fn\<close> was invoked
  and the delays handed to \<^verbatim>\<open>setTimeout\<close>, in order.
\<close>

record ('a, 'u) retry_result =
  retry_outcome :: "error + 'a"
  retry_calls :: nat
  retry_delays :: "int list"
  retry_world :: "'u world"

text \<open>\<^verbatim>\<open>error instanceof APIError && error.isClientError\<close>, the test that stops the
  retries.\<close>

definition isAPIClientError :: "error \<Rightarrow> bool" where
  "isAPIClientError e = (case e of IsAPIError a \<Rightarrow> isClientError a | _ \<Rightarrow> False)"

text \<open>The \<^verbatim>\<open>for\<close> loop from a given value of \<^verbatim>\<open>attempt\<close>; \<^verbatim>\<open>lastError\<close> is the
  variable of that name.\<close>

function retry_loop ::
    "('a, 'u) thunk \<Rightarrow> int \<Rightarrow> int \<Rightarrow> int \<Rightarrow> error option \<Rightarrow> 'u world \<Rightarrow> ('a, 'u) retry_result" where
  "retry_loop fn maxRetries baseDelay attempt lastError w =
     (if attempt \<le> maxRetries then
        (case fn w of
           (Inr v, w') \<Rightarrow>
             \<lparr>retry_outcome = Inr v, retry_calls = 1, retry_delays = [], retry_world = w'\<rparr>
         | (Inl e, w') \<Rightarrow>
             if isAPIClientError e then
               \<lparr>retry_outcome = Inl e, retry_calls = 1, retry_delays = [], retry_world = w'\<rparr>
             else if attempt = maxRetries then
               \<lparr>retry_outcome = Inl e, retry_calls = 1, retry_delays = [], retry_world = w'\<rparr>
             else
               (let delay = baseDelay * 2 ^ nat attempt;
                    r = retry_loop fn maxRetries baseDelay (attempt + 1) (Some e)
                          (setTimeout delay (console_warn (AttemptFailed (attempt + 1) delay) w'))
                in r\<lparr>retry_calls := Suc (retry_calls r),
                     retry_delays := delay # retry_delays r\<rparr>))
      else
        \<lparr>retry_outcome = Inl (case lastError of None \<Rightarrow> IsUndefined | Some e \<Rightarrow> e),
         retry_calls = 0, retry_delays = [], retry_world = w\<rparr>)"
  by pat_completeness auto
termination
  by (relation "measure (\<lambda>(fn, maxRetries, baseDelay, attempt, lastError, w).
        nat (maxRetries + 1 - attempt))") auto

declare retry_loop.simps [simp del]

definition retryWithBackoff ::
    "('a, 'u) thunk \<Rightarrow> int \<Rightarrow> int \<Rightarrow> 'u world \<Rightarrow> ('a, 'u) retry_result" where
  "retryWithBackoff fn maxRetries baseDelay w = retry_loop fn maxRetries baseDelay 0 None w"

section \<open>Configuration (config/api)\<close>

text \<open>The fields of \<^verbatim>\<open>config\<close> that the cache and the content manager read, named
  by their path: \<^verbatim>\<open>config.features.enableCache\<close> is \<open>features_enableCache\<close>.\<close>

record config =
  features_useStrapi :: bool
  features_useHybridMode :: bool
  features_enableCache :: bool
  cache_ttl :: int
  cache_maxSize :: int
  development_enableDebugLogs :: bool

definition logger_info :: "config \<Rightarrow> message \<Rightarrow> 'u world \<Rightarrow> 'u world" where
  "logger_info cfg m w = (if development_enableDebugLogs cfg then console_log m w else w)"

definition logger_success :: "config \<Rightarrow> message \<Rightarrow> 'u world \<Rightarrow> 'u world" where
  "logger_success cfg m w = (if development_enableDebugLogs cfg then console_log m w else w)"

definition logger_warn :: "message \<Rightarrow> 'u world \<Rightarrow> 'u world" where
  "logger_warn m w = console_warn m w"

section \<open>The TTL memory cache (lib/cache)\<close>

record 'v CacheEntry =
  data :: 'v
  timestamp :: int
  ttl :: int

text \<open>
  The private \<^verbatim>\<open>Map\<close> is an association list in insertion order: \<^verbatim>\<open>Map.set\<close> on a key
  that is present replaces the value where it stands and on a new key appends
  (\<^const>\<open>AList.update\<close>), \<^verbatim>\<open>Map.delete\<close> removes the key (\<^const>\<open>AList.delete\<close>),
  \<^verbatim>\<open>Map.get\<close> is \<^const>\<open>map_of\<close>, and \<^verbatim>\<open>keys().next().value\<close> is the key of the head.
\<close>

record 'v MemoryCache =
  cache :: "(string \<times> 'v CacheEntry) list"
  maxSize :: int
  defaultTTL :: int

definition newMemoryCache :: "config \<Rightarrow> int option \<Rightarrow> int option \<Rightarrow> 'v MemoryCache" where
  "newMemoryCache cfg maxSizeArg defaultTTLArg =
     \<lparr>cache = [],
      maxSize = (case maxSizeArg of None \<Rightarrow> cache_maxSize cfg | Some n \<Rightarrow> n),
      defaultTTL = (case defaultTTLArg of None \<Rightarrow> cache_ttl cfg | Some t \<Rightarrow> t)\<rparr>"

text \<open>\<^verbatim>\<open>ttl || this.defaultTTL\<close>: the default stands in for a missing and for a zero
  ttl.\<close>

definition ttlOrDefault :: "int option \<Rightarrow> int \<Rightarrow> int" where
  "ttlOrDefault ttlArg fallbackTTL =
     (case ttlArg of None \<Rightarrow> fallbackTTL | Some t \<Rightarrow> if t \<noteq> 0 then t else fallbackTTL)"

text \<open>
  The first half of \<^verbatim>\<open>set\<close>: when the map holds \<^verbatim>\<open>maxSize\<close> entries or more, the oldest
  key is deleted. The guard \<^verbatim>\<open>if (oldestKey)\<close> is a truthiness test: it fails for an
  empty map and for the empty string as oldest key.
\<close>

definition evictIfFull ::
    "config \<Rightarrow> 'v MemoryCache \<Rightarrow> 'u world \<Rightarrow> (string \<times> 'v CacheEntry) list \<times> 'u world" where
  "evictIfFull cfg this w =
     (if int (length (cache this)) \<ge> maxSize this then
        (case cache this of
           [] \<Rightarrow> (cache this, w)
         | (oldestKey, _) # _ \<Rightarrow>
             if oldestKey \<noteq> [] then
               (AList.delete oldestKey (cache this), logger_info cfg (Evicted oldestKey) w)
             else (cache this, w))
      else (cache this, w))"

text \<open>\<^verbatim>\<open>set(key, data, ttl?)\<close>.\<close>

definition set_entry ::
    "config \<Rightarrow> string \<Rightarrow> 'v \<Rightarrow> int option \<Rightarrow> 'v MemoryCache \<Rightarrow> 'u world
      \<Rightarrow> 'v MemoryCache \<times> 'u world" where
  "set_entry cfg key d ttlArg this w =
     (if \<not> features_enableCache cfg then (this, w)
      else
        (case evictIfFull cfg this w of
           (entries, w1) \<Rightarrow>
             (this\<lparr>cache :=
                AList.update key
                  \<lparr>data = d, timestamp = clock w1,
                   ttl = ttlOrDefault ttlArg (defaultTTL this)\<rparr>
                  entries\<rparr>,
              logger_info cfg (Cached key) w1)))"

text \<open>
  A run of \<^verbatim>\<open>get\<close> leaves the value or the thrown error, the cache and the world, and
  two observations of the run itself: the path it took and how many times it invoked
  the fetcher.
\<close>

datatype branch = Bypass | Hit | Fetched | Stale | Failed

record ('a, 'v, 'u) get_result =
  get_outcome :: "error + 'a"
  get_branch :: branch
  get_calls :: nat
  get_cache :: "'v MemoryCache"
  get_world :: "'u world"

text \<open>What a call did besides returning: the path taken, the fetcher invocations, the
  cache and the world it left.\<close>

definition effects ::
    "('a, 'v, 'u) get_result \<Rightarrow> branch \<times> nat \<times> 'v MemoryCache \<times> 'u world" where
  "effects r = (get_branch r, get_calls r, get_cache r, get_world r)"

text \<open>The \<^verbatim>\<open>try\<close>/\<^verbatim>\<open>catch\<close> of \<^verbatim>\<open>get\<close>, reached on a miss; \<open>cached\<close> is the entry read
  before the fetch, if any.\<close>

definition get_miss ::
    "config \<Rightarrow> string \<Rightarrow> ('v, 'u) thunk \<Rightarrow> int option \<Rightarrow> 'v CacheEntry option
      \<Rightarrow> 'v MemoryCache \<Rightarrow> 'u world \<Rightarrow> ('v, 'v, 'u) get_result" where
  "get_miss cfg key fetcher ttlArg cached this w =
     (case fetcher (logger_info cfg (CacheMiss key) w) of
        (Inr d, w') \<Rightarrow>
          (case set_entry cfg key d ttlArg this w' of
             (this', w'') \<Rightarrow>
               \<lparr>get_outcome = Inr d, get_branch = Fetched, get_calls = 1,
                get_cache = this', get_world = w''\<rparr>)
      | (Inl e, w') \<Rightarrow>
          (case cached of
             Some c \<Rightarrow>
               \<lparr>get_outcome = Inr (data c), get_branch = Stale, get_calls = 1,
                get_cache = this, get_world = logger_warn (UsingStale key) w'\<rparr>
           | None \<Rightarrow>
               \<lparr>get_outcome = Inl e, get_branch = Failed, get_calls = 1,
                get_cache = this, get_world = w'\<rparr>))"

definition get ::
    "config \<Rightarrow> string \<Rightarrow> ('v, 'u) thunk \<Rightarrow> int option \<Rightarrow> 'v MemoryCache \<Rightarrow> 'u world
      \<Rightarrow> ('v, 'v, 'u) get_result" where
  "get cfg key fetcher ttlArg this w =
     (if \<not> features_enableCache cfg then
        (case fetcher w of
           (r, w') \<Rightarrow>
             \<lparr>get_outcome = r, get_branch = Bypass, get_calls = 1,
              get_cache = this, get_world = w'\<rparr>)
      else
        (let cached = map_of (cache this) key; now = clock w in
         case cached of
           Some c \<Rightarrow>
             if now - timestamp c < ttl c then
               \<lparr>get_outcome = Inr (data c), get_branch = Hit, get_calls = 0,
                get_cache = this, get_world = logger_info cfg (CacheHit key) w\<rparr>
             else get_miss cfg key fetcher ttlArg cached this w
         | None \<Rightarrow> get_miss cfg key fetcher ttlArg cached this w))"

definition delete ::
    "config \<Rightarrow> string \<Rightarrow> 'v MemoryCache \<Rightarrow> 'u world \<Rightarrow> bool \<times> 'v MemoryCache \<times> 'u world" where
  "delete cfg key this w =
     (case map_of (cache this) key of
        Some _ \<Rightarrow>
          (True, this\<lparr>cache := AList.delete key (cache this)\<rparr>, logger_info cfg (Deleted key) w)
      | None \<Rightarrow> (False, this, w))"

definition clear :: "config \<Rightarrow> 'v MemoryCache \<Rightarrow> 'u world \<Rightarrow> 'v MemoryCache \<times> 'u world" where
  "clear cfg this w =
     (this\<lparr>cache := []\<rparr>, logger_info cfg (Cleared (length (cache this))) w)"

definition cleanup ::
    "config \<Rightarrow> 'v MemoryCache \<Rightarrow> 'u world \<Rightarrow> nat \<times> 'v MemoryCache \<times> 'u world" where
  "cleanup cfg this w =
     (let now = clock w;
          expired = filter (\<lambda>(key, entry). now - timestamp entry \<ge> ttl entry) (cache this);
          cleanedCount = length expired
      in (cleanedCount,
          this\<lparr>cache := filter (\<lambda>(key, entry). \<not> now - timestamp entry \<ge> ttl entry) (cache this)\<rparr>,
          if cleanedCount > 0 then logger_info cfg (CleanedUp cleanedCount) w else w))"

text \<open>
  A sequence of calls on one cache. Between two calls time may pass (\<open>Elapse\<close>); the
  callbacks handed to \<^verbatim>\<open>get\<close> act on the world and do not call back into the cache.
\<close>

datatype ('v, 'u) operation =
    Get string "('v, 'u) thunk" "int option"
  | Set string 'v "int option"
  | Delete string
  | Clear
  | Cleanup
  | Elapse int

fun step ::
    "config \<Rightarrow> ('v, 'u) operation \<Rightarrow> 'v MemoryCache \<times> 'u world \<Rightarrow> 'v MemoryCache \<times> 'u world" where
  "step cfg (Get key fetcher ttlArg) (this, w) =
     (let r = get cfg key fetcher ttlArg this w in (get_cache r, get_world r))"
| "step cfg (Set key d ttlArg) (this, w) = set_entry cfg key d ttlArg this w"
| "step cfg (Delete key) (this, w) = snd (delete cfg key this w)"
| "step cfg Clear (this, w) = clear cfg this w"
| "step cfg Cleanup (this, w) = snd (cleanup cfg this w)"
| "step cfg (Elapse d) (this, w) = (this, w\<lparr>clock := clock w + d\<rparr>)"

fun run ::
    "config \<Rightarrow> ('v, 'u) operation list \<Rightarrow> 'v MemoryCache \<times> 'u world \<Rightarrow> 'v MemoryCache \<times> 'u world" where
  "run cfg [] s = s"
| "run cfg (operation # rest) s = run cfg rest (step cfg operation s)"

text \<open>The keys a call writes under.\<close>

fun key_of :: "('v, 'u) operation \<Rightarrow> string option" where
  "key_of (Get key fetcher ttlArg) = Some key"
| "key_of (Set key d ttlArg) = Some key"
| "key_of _ = None"

text \<open>
  \<^verbatim>\<open>generateCacheKey(prefix, params)\<close>: the parameters sorted by name, each written
  \<^verbatim>\<open>name=value\<close>, joined by \<^verbatim>\<open>&\<close>. The parameter object is a list of pairs of a
  name and the value as the template string prints it.
\<close>

definition join :: "string \<Rightarrow> string list \<Rightarrow> string" where
  "join sep xs = (case xs of [] \<Rightarrow> [] | y # ys \<Rightarrow> foldl (\<lambda>acc s. acc @ sep @ s) y ys)"

definition generateCacheKey :: "string \<Rightarrow> (string \<times> string) list \<Rightarrow> string" where
  "generateCacheKey prefix params =
     (let sortedParams = join ''&'' (map (\<lambda>(key, v). key @ ''='' @ v) (sort_key fst params))
      in if sortedParams \<noteq> [] then prefix @ '':'' @ sortedParams else prefix)"

definition printBool :: "bool \<Rightarrow> string" where
  "printBool b = (if b then ''true'' else ''false'')"

section \<open>The content manager (lib/content-manager)\<close>

text \<open>
  Of a post, the fields the content manager reads. \<^verbatim>\<open>post.data.tags\<close> is guarded by
  the code before use and \<^verbatim>\<open>post.body\<close> is read with \<^verbatim>\<open>?.\<close>, so both may be absent.
\<close>

record PostData =
  title :: string
  tags :: "string list option"
  category :: string

record PostEntry =
  post_id :: string
  post_slug :: string
  post_body :: "string option"
  post_data :: PostData

text \<open>A value that may be \<^verbatim>\<open>undefined\<close> or \<^verbatim>\<open>null\<close>.\<close>

datatype 'a nullable = Undefined | Null | Defined 'a

text \<open>
  The content manager reaches its upstream through two functions of the module
  \<^verbatim>\<open>strapiUtils\<close> (utils/strapi-content-utils). The methods of the class take the
  module as a pair of callbacks; the module itself is \<open>strapiContentUtils\<close> below, a
  pair of callbacks on a world that holds the shared cache.
\<close>

record 'u strapiUtils =
  strapi_getSortedPosts :: "(PostEntry list, 'u) thunk"
  strapi_getPostBySlug :: "string \<Rightarrow> (PostEntry nullable, 'u) thunk"

record ContentManagerOptions =
  useCache :: bool
  cacheTTL :: int
  enableFallback :: bool

record ContentManager =
  useStrapi :: bool
  useHybridMode :: bool
  options :: ContentManagerOptions

definition newContentManager ::
    "config \<Rightarrow> bool option \<Rightarrow> int option \<Rightarrow> bool option \<Rightarrow> ContentManager" where
  "newContentManager cfg useCacheArg cacheTTLArg enableFallbackArg =
     \<lparr>useStrapi = features_useStrapi cfg,
      useHybridMode = features_useHybridMode cfg,
      options =
        \<lparr>useCache = (case useCacheArg of None \<Rightarrow> features_enableCache cfg | Some b \<Rightarrow> b),
         cacheTTL = (case cacheTTLArg of None \<Rightarrow> cache_ttl cfg | Some t \<Rightarrow> t),
         enableFallback = (case enableFallbackArg of None \<Rightarrow> True | Some b \<Rightarrow> b)\<rparr>\<rparr>"

definition fetchStrapiPosts ::
    "ContentManager \<Rightarrow> config \<Rightarrow> 'u strapiUtils \<Rightarrow> (PostEntry list, 'u) thunk" where
  "fetchStrapiPosts this cfg strapi =
     withErrorBoundary
       (\<lambda>w. case strapi_getSortedPosts strapi (logger_info cfg FetchingPosts w) of
               (Inr posts, w') \<Rightarrow> (Inr posts, logger_success cfg (FetchedPosts (length posts)) w')
             | (Inl e, w') \<Rightarrow> (Inl e, w'))
       (if enableFallback (options this) then [] else [])
       (Some ''fetchStrapiPosts'')"

definition fetchStrapiPostBySlug ::
    "ContentManager \<Rightarrow> config \<Rightarrow> 'u strapiUtils \<Rightarrow> string \<Rightarrow> (PostEntry nullable, 'u) thunk" where
  "fetchStrapiPostBySlug this cfg strapi slug =
     withErrorBoundary
       (\<lambda>w. case strapi_getPostBySlug strapi slug (logger_info cfg (FetchingPost slug) w) of
               (Inr post, w') \<Rightarrow>
                 (Inr post,
                  (case post of
                     Defined p \<Rightarrow> logger_success cfg (FetchedPost (title (post_data p))) w'
                   | _ \<Rightarrow> logger_warn (PostNotFound slug) w'))
             | (Inl e, w') \<Rightarrow> (Inl e, w'))
       Undefined
       (Some ''fetchStrapiPostBySlug'')"

text \<open>Without the cache the fetch is called directly: one call, the cache untouched.\<close>

definition uncached :: "('a, 'u) thunk \<Rightarrow> 'v MemoryCache \<Rightarrow> 'u world \<Rightarrow> ('a, 'v, 'u) get_result" where
  "uncached fetch apiCache w =
     (case fetch w of
        (r, w') \<Rightarrow>
          \<lparr>get_outcome = r, get_branch = Bypass, get_calls = 1,
           get_cache = apiCache, get_world = w'\<rparr>)"

definition getStrapiPostsWithFallback ::
    "ContentManager \<Rightarrow> config \<Rightarrow> 'u strapiUtils \<Rightarrow> string \<Rightarrow> PostEntry list MemoryCache
      \<Rightarrow> 'u world \<Rightarrow> (PostEntry list, PostEntry list, 'u) get_result" where
  "getStrapiPostsWithFallback this cfg strapi cacheKey apiCache w =
     (if \<not> useCache (options this) then uncached (fetchStrapiPosts this cfg strapi) apiCache w
      else get cfg cacheKey (fetchStrapiPosts this cfg strapi) (Some (cacheTTL (options this)))
             apiCache w)"

definition getStrapiPostBySlugWithFallback ::
    "ContentManager \<Rightarrow> config \<Rightarrow> 'u strapiUtils \<Rightarrow> string \<Rightarrow> string
      \<Rightarrow> PostEntry nullable MemoryCache \<Rightarrow> 'u world
      \<Rightarrow> (PostEntry nullable, PostEntry nullable, 'u) get_result" where
  "getStrapiPostBySlugWithFallback this cfg strapi slug cacheKey apiCache w =
     (if \<not> useCache (options this) then
        uncached (fetchStrapiPostBySlug this cfg strapi slug) apiCache w
      else get cfg cacheKey (fetchStrapiPostBySlug this cfg strapi slug)
             (Some (cacheTTL (options this))) apiCache w)"

definition getSortedPosts ::
    "ContentManager \<Rightarrow> config \<Rightarrow> 'u strapiUtils \<Rightarrow> PostEntry list MemoryCache \<Rightarrow> 'u world
      \<Rightarrow> (PostEntry list, PostEntry list, 'u) get_result" where
  "getSortedPosts this cfg strapi apiCache w =
     getStrapiPostsWithFallback this cfg strapi
       (generateCacheKey ''sorted-posts''
          [(''useStrapi'', printBool (useStrapi this)),
           (''useHybridMode'', printBool (useHybridMode this))])
       apiCache w"

definition getPostBySlug ::
    "ContentManager \<Rightarrow> config \<Rightarrow> 'u strapiUtils \<Rightarrow> string \<Rightarrow> PostEntry nullable MemoryCache
      \<Rightarrow> 'u world \<Rightarrow> (PostEntry nullable, PostEntry nullable, 'u) get_result" where
  "getPostBySlug this cfg strapi slug apiCache w =
     getStrapiPostBySlugWithFallback this cfg strapi slug
       (generateCacheKey ''post-by-slug''
          [(''slug'', slug), (''useStrapi'', printBool (useStrapi this))])
       apiCache w"

text \<open>\<^verbatim>\<open>const x = await p; return f(x)\<close>: a rejection of \<open>p\<close> passes through, a value
  is mapped; cache, world and observations are those of \<open>p\<close>.\<close>

definition awaitThen ::
    "('a \<Rightarrow> 'b) \<Rightarrow> ('a, 'v, 'u) get_result \<Rightarrow> ('b, 'v, 'u) get_result" where
  "awaitThen f r =
     \<lparr>get_outcome = (case get_outcome r of Inl e \<Rightarrow> Inl e | Inr x \<Rightarrow> Inr (f x)),
      get_branch = get_branch r, get_calls = get_calls r,
      get_cache = get_cache r, get_world = get_world r\<rparr>"

text \<open>
  \<^verbatim>\<open>Array.prototype.slice(start, end)\<close> on integers: a negative index counts from the
  end, both are clamped to the array.
\<close>

definition slice :: "'a list \<Rightarrow> int \<Rightarrow> int \<Rightarrow> 'a list" where
  "slice xs start end' =
     (let n = int (length xs);
          k = (if start < 0 then max (n + start) 0 else min start n);
          final = (if end' < 0 then max (n + end') 0 else min end' n)
      in take (nat (final - k)) (drop (nat k) xs))"

text \<open>
  A JavaScript number that came out of a division of integers followed by
  \<^verbatim>\<open>Math.ceil\<close>: an integer, or \<^verbatim>\<open>Infinity\<close> or \<^verbatim>\<open>NaN\<close> when the divisor was zero.
\<close>

datatype number = Finite int | Infinity | NaN

definition ceilDiv :: "int \<Rightarrow> int \<Rightarrow> number" where
  "ceilDiv n pageSize =
     (if pageSize = 0 then (if n = 0 then NaN else if n > 0 then Infinity else Finite 0)
      else Finite (- ((- n) div pageSize)))"

record Paginated =
  posts :: "PostEntry list"
  total :: int
  totalPages :: number
  currentPage :: int

definition paginate :: "int \<Rightarrow> int \<Rightarrow> PostEntry list \<Rightarrow> Paginated" where
  "paginate page pageSize allPosts =
     (let total' = int (length allPosts);
          totalPages' = ceilDiv total' pageSize;
          startIndex = (page - 1) * pageSize;
          posts' = slice allPosts startIndex (startIndex + pageSize)
      in \<lparr>posts = posts', total = total', totalPages = totalPages', currentPage = page\<rparr>)"

definition getPostCount ::
    "ContentManager \<Rightarrow> config \<Rightarrow> 'u strapiUtils \<Rightarrow> PostEntry list MemoryCache \<Rightarrow> 'u world
      \<Rightarrow> (nat, PostEntry list, 'u) get_result" where
  "getPostCount this cfg strapi apiCache w =
     awaitThen length (getSortedPosts this cfg strapi apiCache w)"

definition getPaginatedPosts ::
    "ContentManager \<Rightarrow> config \<Rightarrow> 'u strapiUtils \<Rightarrow> int option \<Rightarrow> int option
      \<Rightarrow> PostEntry list MemoryCache \<Rightarrow> 'u world \<Rightarrow> (Paginated, PostEntry list, 'u) get_result" where
  "getPaginatedPosts this cfg strapi pageArg pageSizeArg apiCache w =
     awaitThen
       (paginate (case pageArg of None \<Rightarrow> 1 | Some p \<Rightarrow> p)
                 (case pageSizeArg of None \<Rightarrow> 10 | Some n \<Rightarrow> n))
       (getSortedPosts this cfg strapi apiCache w)"

definition getPostsByTag ::
    "ContentManager \<Rightarrow> config \<Rightarrow> 'u strapiUtils \<Rightarrow> string \<Rightarrow> PostEntry list MemoryCache
      \<Rightarrow> 'u world \<Rightarrow> (PostEntry list, PostEntry list, 'u) get_result" where
  "getPostsByTag this cfg strapi tag apiCache w =
     awaitThen
       (filter (\<lambda>post. case tags (post_data post) of None \<Rightarrow> False
                       | Some ts \<Rightarrow> List.member ts tag))
       (getSortedPosts this cfg strapi apiCache w)"

definition getPostsByCategory ::
    "ContentManager \<Rightarrow> config \<Rightarrow> 'u strapiUtils \<Rightarrow> string \<Rightarrow> PostEntry list MemoryCache
      \<Rightarrow> 'u world \<Rightarrow> (PostEntry list, PostEntry list, 'u) get_result" where
  "getPostsByCategory this cfg strapi category' apiCache w =
     awaitThen
       (filter (\<lambda>post. category (post_data post) = category'))
       (getSortedPosts this cfg strapi apiCache w)"

text \<open>
  \<^verbatim>\<open>String.prototype.includes\<close> as a search for a contiguous run of characters;
  \<^verbatim>\<open>toLowerCase\<close> is a parameter of the search.
\<close>

fun includesStr :: "string \<Rightarrow> string \<Rightarrow> bool" where
  "includesStr [] sub = (sub = [])"
| "includesStr (c # cs) sub = (take (length sub) (c # cs) = sub \<or> includesStr cs sub)"

definition searchPosts ::
    "(string \<Rightarrow> string) \<Rightarrow> ContentManager \<Rightarrow> config \<Rightarrow> 'u strapiUtils \<Rightarrow> string
      \<Rightarrow> PostEntry list MemoryCache \<Rightarrow> 'u world \<Rightarrow> (PostEntry list, PostEntry list, 'u) get_result" where
  "searchPosts toLowerCase this cfg strapi query apiCache w =
     awaitThen
       (\<lambda>allPosts.
          let searchTerm = toLowerCase query in
          filter (\<lambda>post.
              let title' = toLowerCase (title (post_data post));
                  content = (case post_body post of None \<Rightarrow> [] | Some b \<Rightarrow> toLowerCase b);
                  tags' = (case tags (post_data post) of None \<Rightarrow> []
                           | Some ts \<Rightarrow> toLowerCase (join '' '' ts))
              in includesStr title' searchTerm \<or> includesStr content searchTerm
                   \<or> includesStr tags' searchTerm)
            allPosts)
       (getSortedPosts this cfg strapi apiCache w)"

section \<open>The shared cache of the running site\<close>

text \<open>
  lib/cache exports one cache, \<^verbatim>\<open>apiCache\<close>, and lib/content-manager and lib/strapi
  both call \<^verbatim>\<open>apiCache.get\<close> on that one object. In the running site the object is
  part of the state of the world: the third component of the world is the pair of
  \<^verbatim>\<open>apiCache\<close> and of what lies outside the process. A callback that runs in such a
  world can call back into the cache.
\<close>

definition apiCache_of :: "('v MemoryCache \<times> 'x) world \<Rightarrow> 'v MemoryCache" where
  "apiCache_of w = fst (upstream w)"

definition with_apiCache ::
    "'v MemoryCache \<Rightarrow> ('v MemoryCache \<times> 'x) world \<Rightarrow> ('v MemoryCache \<times> 'x) world" where
  "with_apiCache this w = w\<lparr>upstream := (this, snd (upstream w))\<rparr>"

text \<open>
  \<^verbatim>\<open>apiCache.get(key, fetcher, ttl)\<close>: the method \<^verbatim>\<open>get\<close> of lib/cache once more, with
  \<^verbatim>\<open>this\<close> read from the world at each point where the method reads \<^verbatim>\<open>this.cache\<close>:
  before the fetch for the lookup, after the fetch for the \<^verbatim>\<open>set\<close>. The entry
  \<open>cached\<close> is the one read before the fetch; the fetcher may have changed the cache
  in between.
\<close>

definition apiCache_get_miss ::
    "config \<Rightarrow> string \<Rightarrow> ('v, 'v MemoryCache \<times> 'x) thunk \<Rightarrow> int option \<Rightarrow> 'v CacheEntry option
      \<Rightarrow> ('v MemoryCache \<times> 'x) world \<Rightarrow> ('v, 'v, 'v MemoryCache \<times> 'x) get_result" where
  "apiCache_get_miss cfg key fetcher ttlArg cached w =
     (case fetcher (logger_info cfg (CacheMiss key) w) of
        (Inr d, w') \<Rightarrow>
          (case set_entry cfg key d ttlArg (apiCache_of w') w' of
             (this', w'') \<Rightarrow>
               \<lparr>get_outcome = Inr d, get_branch = Fetched, get_calls = 1,
                get_cache = this', get_world = with_apiCache this' w''\<rparr>)
      | (Inl e, w') \<Rightarrow>
          (case cached of
             Some c \<Rightarrow>
               \<lparr>get_outcome = Inr (data c), get_branch = Stale, get_calls = 1,
                get_cache = apiCache_of w', get_world = logger_warn (UsingStale key) w'\<rparr>
           | None \<Rightarrow>
               \<lparr>get_outcome = Inl e, get_branch = Failed, get_calls = 1,
                get_cache = apiCache_of w', get_world = w'\<rparr>))"

definition apiCache_get ::
    "config \<Rightarrow> string \<Rightarrow> ('v, 'v MemoryCache \<times> 'x) thunk \<Rightarrow> int option
      \<Rightarrow> ('v MemoryCache \<times> 'x) world \<Rightarrow> ('v, 'v, 'v MemoryCache \<times> 'x) get_result" where
  "apiCache_get cfg key fetcher ttlArg w =
     (if \<not> features_enableCache cfg then
        (case fetcher w of
           (r, w') \<Rightarrow>
             \<lparr>get_outcome = r, get_branch = Bypass, get_calls = 1,
              get_cache = apiCache_of w', get_world = w'\<rparr>)
      else
        (let cached = map_of (cache (apiCache_of w)) key; now = clock w in
         case cached of
           Some c \<Rightarrow>
             if now - timestamp c < ttl c then
               \<lparr>get_outcome = Inr (data c), get_branch = Hit, get_calls = 0,
                get_cache = apiCache_of w, get_world = logger_info cfg (CacheHit key) w\<rparr>
             else apiCache_get_miss cfg key fetcher ttlArg cached w
         | None \<Rightarrow> apiCache_get_miss cfg key fetcher ttlArg cached w))"

text \<open>What lies outside the process: the world without \<^verbatim>\<open>apiCache\<close>.\<close>

definition outside_of :: "('v MemoryCache \<times> 'x) world \<Rightarrow> 'x world" where
  "outside_of w = \<lparr>clock = clock w, console = console w, upstream = snd (upstream w)\<rparr>"

text \<open>A callback that acts outside the process only: it sees the clock, the console and
  the outside, and leaves \<^verbatim>\<open>apiCache\<close> as it is.\<close>

definition outside :: "('b, 'x) thunk \<Rightarrow> ('b, 'v MemoryCache \<times> 'x) thunk" where
  "outside f w =
     (case f (outside_of w) of
        (r, w') \<Rightarrow>
          (r, \<lparr>clock = clock w', console = console w',
               upstream = (apiCache_of w, upstream w')\<rparr>))"

section \<open>The Strapi client (lib/strapi)\<close>

text \<open>
  The requests of the two queries, in place of the text of the URL: the published
  articles, newest first, and the articles with a given slug, the latter with the time
  of the request as a parameter (\<^verbatim>\<open>_t\<close>).
\<close>

datatype endpoint = PublishedArticles | ArticleBySlug string int

text \<open>A response of the list endpoints, \<^verbatim>\<open>{ data: T[], meta }\<close>, of which the queries
  read \<^verbatim>\<open>data\<close>; the articles are of any type \<open>'a\<close>.\<close>

record 'a StrapiResponse =
  response_data :: "'a list"

text \<open>
  \<^verbatim>\<open>apiCache\<close> holds entries of type \<^verbatim>\<open>CacheEntry<any>\<close>: the responses that lib/strapi
  stores, and the post lists and posts that the content manager stores.
\<close>

datatype 'a cacheValue =
    CachedResponse "'a StrapiResponse"
  | CachedPosts "PostEntry list"
  | CachedPost "PostEntry nullable"

text \<open>A value of type \<^verbatim>\<open>T\<close> returned by a callback, as the cache holds it.\<close>

definition keptAs :: "('b \<Rightarrow> 'v) \<Rightarrow> ('b, 'u) thunk \<Rightarrow> ('v, 'u) thunk" where
  "keptAs inject f w =
     (case f w of (Inr v, w') \<Rightarrow> (Inr (inject v), w') | (Inl e, w') \<Rightarrow> (Inl e, w'))"

text \<open>The fields of \<^verbatim>\<open>config\<close> that lib/strapi reads besides those above.\<close>

record apiConfig =
  features_enableRetry :: bool
  api_retryAttempts :: int
  api_retryBaseDelay :: int

text \<open>
  What the two queries rest on, as parameters:

  \<^item> \<^verbatim>\<open>fetchAPI\<close>, the HTTP request of lib/strapi with its timeout: it resolves to the
    parsed response or throws (an \<^verbatim>\<open>APIError\<close> for a status that is not ok, a
    \<^verbatim>\<open>NetworkError\<close> for a timeout or a failed connection). It acts outside the
    process and does not touch \<^verbatim>\<open>apiCache\<close>.
  \<^item> \<^verbatim>\<open>adaptStrapiArticle\<close> and \<^verbatim>\<open>addNavigationInfo\<close> of lib/strapi-adapter, the
    conversion of one article into a post and the sorting and linking of a list of
    posts. They read modules that are not among the sources (utils/image-adapter,
    utils/url-utils); each returns its result or throws.
\<close>

record ('a, 'x) backend =
  fetchAPI :: "endpoint \<Rightarrow> ('a StrapiResponse, 'x) thunk"
  adaptStrapiArticle :: "'a \<Rightarrow> error + PostEntry"
  addNavigationInfo :: "PostEntry list \<Rightarrow> error + PostEntry list"

text \<open>The callback \<^verbatim>\<open>fetchFunction\<close> of \<^verbatim>\<open>getPublishedArticles\<close>: the request, and
  a debug line when the response is not empty.\<close>

definition fetchFunction ::
    "config \<Rightarrow> ('a, 'x) backend \<Rightarrow> ('a StrapiResponse, 'v MemoryCache \<times> 'x) thunk" where
  "fetchFunction cfg lib w =
     (case outside (fetchAPI lib PublishedArticles) w of
        (Inr result, w') \<Rightarrow>
          (Inr result,
           if response_data result \<noteq> [] \<and> development_enableDebugLogs cfg
           then logger_info cfg SEOFieldsDebug w' else w')
      | (Inl e, w') \<Rightarrow> (Inl e, w'))"

definition publishedArticlesKey :: string where
  "publishedArticlesKey = generateCacheKey ''published-articles'' []"

text \<open>\<^verbatim>\<open>getPublishedArticles\<close>: a read of \<^verbatim>\<open>apiCache\<close> under the key
  \<^verbatim>\<open>published-articles\<close>, with the default ttl, whose fetcher is the request, retried
  unless retries are switched off.\<close>

definition getPublishedArticles ::
    "config \<Rightarrow> apiConfig \<Rightarrow> ('a, 'x) backend \<Rightarrow> ('a cacheValue MemoryCache \<times> 'x) world
      \<Rightarrow> ('a cacheValue, 'a cacheValue, 'a cacheValue MemoryCache \<times> 'x) get_result" where
  "getPublishedArticles cfg api lib w =
     apiCache_get cfg publishedArticlesKey
       (keptAs CachedResponse
          (\<lambda>w. if \<not> features_enableRetry api then fetchFunction cfg lib w
                else
                  (let r = retryWithBackoff (fetchFunction cfg lib) (api_retryAttempts api)
                             (api_retryBaseDelay api) w
                   in (retry_outcome r, retry_world r))))
       None w"

text \<open>\<^verbatim>\<open>getArticleBySlug\<close>: one request, stamped with \<^verbatim>\<open>Date.now()\<close>; no cache and no
  retry.\<close>

definition getArticleBySlug ::
    "('a, 'x) backend \<Rightarrow> string \<Rightarrow> ('a StrapiResponse, 'v MemoryCache \<times> 'x) thunk" where
  "getArticleBySlug lib slug w = outside (fetchAPI lib (ArticleBySlug slug (clock w))) w"

section \<open>The upstream of the content manager (utils/strapi-content-utils)\<close>

text \<open>\<^verbatim>\<open>adaptStrapiArticles\<close>: \<^verbatim>\<open>strapiArticles.map(adaptStrapiArticle)\<close>, which stops at
  the first article whose conversion throws.\<close>

fun adaptStrapiArticles :: "('a \<Rightarrow> error + PostEntry) \<Rightarrow> 'a list \<Rightarrow> error + PostEntry list" where
  "adaptStrapiArticles adapt [] = Inr []"
| "adaptStrapiArticles adapt (article # rest) =
     (case adapt article of
        Inl e \<Rightarrow> Inl e
      | Inr post \<Rightarrow>
          (case adaptStrapiArticles adapt rest of Inl e \<Rightarrow> Inl e | Inr ps \<Rightarrow> Inr (post # ps)))"

text \<open>
  The two statements of \<^verbatim>\<open>getSortedPosts\<close> after the \<^verbatim>\<open>await\<close>, on the value that
  \<^verbatim>\<open>getPublishedArticles\<close> returned. That value comes out of the cache unchecked; when it
  is not a response, \<^verbatim>\<open>response.data\<close> has no \<^verbatim>\<open>map\<close> and the conversion throws a
  \<^verbatim>\<open>TypeError\<close>.
\<close>

definition sortedPostsOf :: "('a, 'x) backend \<Rightarrow> 'a cacheValue \<Rightarrow> error + PostEntry list" where
  "sortedPostsOf lib v =
     (case v of
        CachedResponse response \<Rightarrow>
          (case adaptStrapiArticles (adaptStrapiArticle lib) (response_data response) of
             Inl e \<Rightarrow> Inl e
           | Inr articles \<Rightarrow> addNavigationInfo lib articles)
      | _ \<Rightarrow> Inl (IsError ''TypeError''))"

text \<open>\<^verbatim>\<open>getSortedPosts\<close> of the module: whatever is thrown inside its \<^verbatim>\<open>try\<close> is logged
  and becomes the empty list.\<close>

definition strapiContentUtils_getSortedPosts ::
    "config \<Rightarrow> apiConfig \<Rightarrow> ('a, 'x) backend
      \<Rightarrow> (PostEntry list, 'a cacheValue MemoryCache \<times> 'x) thunk" where
  "strapiContentUtils_getSortedPosts cfg api lib w =
     (let r = getPublishedArticles cfg api lib w in
      case (case get_outcome r of Inl e \<Rightarrow> Inl e | Inr response \<Rightarrow> sortedPostsOf lib response) of
        Inr ps \<Rightarrow> (Inr ps, get_world r)
      | Inl e \<Rightarrow> (Inr [], console_error (ErrorFetchingPosts e) (get_world r)))"

text \<open>\<^verbatim>\<open>getPostBySlug\<close> of the module: the first article of the response as a post,
  \<^verbatim>\<open>null\<close> when the response is empty, and \<^verbatim>\<open>null\<close> again, after a log line, when
  anything is thrown.\<close>

definition strapiContentUtils_getPostBySlug ::
    "('a, 'x) backend \<Rightarrow> string \<Rightarrow> (PostEntry nullable, 'v MemoryCache \<times> 'x) thunk" where
  "strapiContentUtils_getPostBySlug lib slug w =
     (case getArticleBySlug lib slug w of
        (Inr response, w') \<Rightarrow>
          (case response_data response of
             [] \<Rightarrow> (Inr Null, w')
           | article # _ \<Rightarrow>
               (case adaptStrapiArticle lib article of
                  Inr post \<Rightarrow> (Inr (Defined post), w')
                | Inl e \<Rightarrow> (Inr Null, console_error (ErrorFetchingPost slug e) w')))
      | (Inl e, w') \<Rightarrow> (Inr Null, console_error (ErrorFetchingPost slug e) w'))"

definition strapiContentUtils ::
    "config \<Rightarrow> apiConfig \<Rightarrow> ('a, 'x) backend \<Rightarrow> ('a cacheValue MemoryCache \<times> 'x) strapiUtils" where
  "strapiContentUtils cfg api lib =
     \<lparr>strapi_getSortedPosts = strapiContentUtils_getSortedPosts cfg api lib,
      strapi_getPostBySlug = strapiContentUtils_getPostBySlug lib\<rparr>"

section \<open>The content manager on the shared cache\<close>

text \<open>
  The two queries of the content manager as they run in the site: the cache is
  \<^verbatim>\<open>apiCache\<close>, the upstream is utils/strapi-content-utils, and the value comes back
  as the cache holds it.
\<close>

definition sortedPostsKey :: "ContentManager \<Rightarrow> string" where
  "sortedPostsKey this =
     generateCacheKey ''sorted-posts''
       [(''useStrapi'', printBool (useStrapi this)),
        (''useHybridMode'', printBool (useHybridMode this))]"

definition postBySlugKey :: "ContentManager \<Rightarrow> string \<Rightarrow> string" where
  "postBySlugKey this slug =
     generateCacheKey ''post-by-slug''
       [(''slug'', slug), (''useStrapi'', printBool (useStrapi this))]"

definition apiCache_uncached ::
    "('v, 'v MemoryCache \<times> 'x) thunk \<Rightarrow> ('v MemoryCache \<times> 'x) world
      \<Rightarrow> ('v, 'v, 'v MemoryCache \<times> 'x) get_result" where
  "apiCache_uncached fetch w =
     (case fetch w of
        (r, w') \<Rightarrow>
          \<lparr>get_outcome = r, get_branch = Bypass, get_calls = 1,
           get_cache = apiCache_of w', get_world = w'\<rparr>)"

definition apiCache_getSortedPosts ::
    "ContentManager \<Rightarrow> config \<Rightarrow> apiConfig \<Rightarrow> ('a, 'x) backend
      \<Rightarrow> ('a cacheValue MemoryCache \<times> 'x) world
      \<Rightarrow> ('a cacheValue, 'a cacheValue, 'a cacheValue MemoryCache \<times> 'x) get_result" where
  "apiCache_getSortedPosts this cfg api lib w =
     (if \<not> useCache (options this) then
        apiCache_uncached
          (keptAs CachedPosts (fetchStrapiPosts this cfg (strapiContentUtils cfg api lib))) w
      else
        apiCache_get cfg (sortedPostsKey this)
          (keptAs CachedPosts (fetchStrapiPosts this cfg (strapiContentUtils cfg api lib)))
          (Some (cacheTTL (options this))) w)"

definition apiCache_getPostBySlug ::
    "ContentManager \<Rightarrow> config \<Rightarrow> apiConfig \<Rightarrow> ('a, 'x) backend \<Rightarrow> string
      \<Rightarrow> ('a cacheValue MemoryCache \<times> 'x) world
      \<Rightarrow> ('a cacheValue, 'a cacheValue, 'a cacheValue MemoryCache \<times> 'x) get_result" where
  "apiCache_getPostBySlug this cfg api lib slug w =
     (if \<not> useCache (options this) then
        apiCache_uncached
          (keptAs CachedPost (fetchStrapiPostBySlug this cfg (strapiContentUtils cfg api lib) slug))
          w
      else
        apiCache_get cfg (postBySlugKey this slug)
          (keptAs CachedPost (fetchStrapiPostBySlug this cfg (strapiContentUtils cfg api lib) slug))
          (Some (cacheTTL (options this))) w)"

section \<open>The size invariant\<close>

text \<open>What every call keeps, as long as no empty key is written: at least one slot, no
  more entries than slots, and no empty key in the map.\<close>

definition bounded :: "'v MemoryCache \<Rightarrow> bool" where
  "bounded this = (1 \<le> maxSize this \<and> int (length (cache this)) \<le> maxSize this
      \<and> [] \<notin> fst ` set (cache this))"

section \<open>Concrete inputs\<close>

text \<open>The production values of config/api, and the same with the cache switched off.\<close>

definition production :: config where
  "production =
     \<lparr>features_useStrapi = True, features_useHybridMode = False, features_enableCache = True,
      cache_ttl = 1800000, cache_maxSize = 200, development_enableDebugLogs = False\<rparr>"

definition cacheDisabled :: config where
  "cacheDisabled = production\<lparr>features_enableCache := False\<rparr>"

text \<open>A world at time 0 with a silent console; its upstream counts the calls it
  receives.\<close>

definition startup :: "nat world" where
  "startup = \<lparr>clock = 0, console = [], upstream = 0\<rparr>"

definition tooManyRequests :: APIError where
  "tooManyRequests =
     \<lparr>message = ''Too Many Requests'', status = 429, endpoint = Some ''/articles''\<rparr>"

definition notFound :: APIError where
  "notFound = \<lparr>message = ''Not Found'', status = 404, endpoint = Some ''/articles''\<rparr>"

definition unauthorized :: APIError where
  "unauthorized = \<lparr>message = ''Unauthorized'', status = 401, endpoint = Some ''/articles''\<rparr>"

definition serverError :: APIError where
  "serverError =
     \<lparr>message = ''Internal Server Error'', status = 500, endpoint = Some ''/articles''\<rparr>"

text \<open>Callbacks that are rejected on every call, each call counted in the upstream.\<close>

definition alwaysRejected :: "error \<Rightarrow> (string, nat) thunk" where
  "alwaysRejected e w = (Inl e, w\<lparr>upstream := Suc (upstream w)\<rparr>)"

text \<open>A callback rejected with status 429 on its first call and resolved on every
  later one.\<close>

definition rejectedOnceWith429 :: "(string, nat) thunk" where
  "rejectedOnceWith429 w =
     (if upstream w = 0 then (Inl (IsAPIError tooManyRequests), w\<lparr>upstream := 1\<rparr>)
      else (Inr ''articles'', w\<lparr>upstream := Suc (upstream w)\<rparr>))"

text \<open>A fetch that takes 50 ms and resolves.\<close>

definition freshArticles :: "(string, nat) thunk" where
  "freshArticles w = (Inr ''fresh'', w\<lparr>clock := clock w + 50, upstream := Suc (upstream w)\<rparr>)"

text \<open>A cache of capacity 2 that is full: \<open>a\<close> is the oldest entry, \<open>b\<close> the newest,
  both stored at time 0 for 1000 ms.\<close>

definition fullCache :: "string MemoryCache" where
  "fullCache =
     \<lparr>cache = [(''a'', \<lparr>data = ''A'', timestamp = 0, ttl = 1000\<rparr>),
               (''b'', \<lparr>data = ''B'', timestamp = 0, ttl = 1000\<rparr>)],
      maxSize = 2, defaultTTL = 1000\<rparr>"

text \<open>A new cache of capacity 2 with a default ttl of 1000 ms.\<close>

definition emptyCache :: "string MemoryCache" where
  "emptyCache = newMemoryCache production (Some 2) (Some 1000)"

text \<open>Three posts, a pair of callbacks that serves them, and a content manager built
  from the production configuration.\<close>

definition helloWorld :: PostEntry where
  "helloWorld =
     \<lparr>post_id = ''1'', post_slug = ''hello-world'', post_body = Some ''Hello'',
      post_data = \<lparr>title = ''Hello World'', tags = Some [''intro'', ''astro''],
                   category = ''general''\<rparr>\<rparr>"

definition cachingNotes :: PostEntry where
  "cachingNotes =
     \<lparr>post_id = ''2'', post_slug = ''caching-notes'', post_body = Some ''TTL'',
      post_data = \<lparr>title = ''Caching Notes'', tags = Some [''cache''],
                   category = ''engineering''\<rparr>\<rparr>"

definition untagged :: PostEntry where
  "untagged =
     \<lparr>post_id = ''3'', post_slug = ''untagged'', post_body = None,
      post_data = \<lparr>title = ''Untagged'', tags = None, category = ''engineering''\<rparr>\<rparr>"

definition strapiOnline :: "nat strapiUtils" where
  "strapiOnline =
     \<lparr>strapi_getSortedPosts =
        (\<lambda>w. (Inr [helloWorld, cachingNotes, untagged], w\<lparr>upstream := Suc (upstream w)\<rparr>)),
      strapi_getPostBySlug =
        (\<lambda>slug w.
           (Inr (case find (\<lambda>p. post_slug p = slug) [helloWorld, cachingNotes, untagged] of
                   None \<Rightarrow> Null | Some p \<Rightarrow> Defined p),
            w\<lparr>upstream := Suc (upstream w)\<rparr>))\<rparr>"

definition manager :: ContentManager where
  "manager = newContentManager production None None None"

definition postsCache :: "PostEntry list MemoryCache" where
  "postsCache = newMemoryCache production None None"

text \<open>The production values of the retry settings.\<close>

definition productionApi :: apiConfig where
  "productionApi =
     \<lparr>features_enableRetry = True, api_retryAttempts = 2, api_retryBaseDelay = 500\<rparr>"

text \<open>
  A Strapi whose articles are the posts themselves. When it is down every request fails
  after 100 ms with a network error; when it is up every request is answered after
  100 ms. The outside counts the requests.
\<close>

definition strapiDown :: "(PostEntry, nat) backend" where
  "strapiDown =
     \<lparr>fetchAPI =
        (\<lambda>request w.
           (Inl (IsNetworkError ''Network error: fetch failed''),
            w\<lparr>clock := clock w + 100, upstream := Suc (upstream w)\<rparr>)),
      adaptStrapiArticle = Inr,
      addNavigationInfo = Inr\<rparr>"

definition strapiUp :: "(PostEntry, nat) backend" where
  "strapiUp =
     \<lparr>fetchAPI =
        (\<lambda>request w.
           (Inr \<lparr>response_data =
                   (case request of
                      PublishedArticles \<Rightarrow> [helloWorld, cachingNotes, untagged]
                    | ArticleBySlug slug t \<Rightarrow>
                        filter (\<lambda>p. post_slug p = slug) [helloWorld, cachingNotes, untagged])\<rparr>,
            w\<lparr>clock := clock w + 100, upstream := Suc (upstream w)\<rparr>)),
      adaptStrapiArticle = Inr,
      addNavigationInfo = Inr\<rparr>"

text \<open>The site as it starts, at time 0 with an empty \<^verbatim>\<open>apiCache\<close>; and the site an hour
  later, \<^verbatim>\<open>apiCache\<close> holding the response and the post list of one request made at
  time 0, both past their 30 minutes.\<close>

definition site :: "(PostEntry cacheValue MemoryCache \<times> nat) world" where
  "site = \<lparr>clock = 0, console = [], upstream = (newMemoryCache production None None, 0)\<rparr>"

definition siteAfterAnHour :: "(PostEntry cacheValue MemoryCache \<times> nat) world" where
  "siteAfterAnHour =
     \<lparr>clock = 3600000, console = [],
      upstream =
        (\<lparr>cache =
            [(publishedArticlesKey,
              \<lparr>data = CachedResponse \<lparr>response_data = [helloWorld, cachingNotes]\<rparr>,
               timestamp = 0, ttl = 1800000\<rparr>),
             (sortedPostsKey manager,
              \<lparr>data = CachedPosts [helloWorld, cachingNotes], timestamp = 0, ttl = 1800000\<rparr>)],
          maxSize = 200, defaultTTL = 1800000\<rparr>,
         1)\<rparr>"

section \<open>The error boundary never rethrows\<close>

text \<open>
  C7. \<^verbatim>\<open>withErrorBoundary(operation, fallback, context)\<close> resolves to the operation's
  result when the operation succeeds, leaving the world as the operation left it. When
  the operation throws any error it resolves to the fallback and prints at least one
  line, every line at warn level when the error is an \<^verbatim>\<open>APIError\<close> with status 401 and
  at error level otherwise, the first line naming the context. In no case does it throw.
\<close>

theorem withErrorBoundary_fallback:
  "(fn w = (Inr v, w') \<longrightarrow> withErrorBoundary fn fallback context w = (Inr v, w'))
   \<and> (fn w = (Inl e, w') \<longrightarrow>
        fst (withErrorBoundary fn fallback context w) = Inr fallback
        \<and> (\<exists>lines. lines \<noteq> []
              \<and> snd (withErrorBoundary fn fallback context w) = w'\<lparr>console := console w' @ lines\<rparr>
              \<and> list_all (\<lambda>l. fst l = (if isAuthenticationError e then WarnLevel else ErrorLevel)) lines
              \<and> ((\<exists>m. snd (hd lines) = AuthFailed (contextOrUnknown context) m)
                   \<or> snd (hd lines) = ErrorIn (contextOrUnknown context) e)))
   \<and> (\<exists>v. fst (withErrorBoundary fn fallback context w) = Inr v)"
proof (intro conjI impI)
  assume "fn w = (Inr v, w')"
  then show "withErrorBoundary fn fallback context w = (Inr v, w')"
    by (simp add: withErrorBoundary_def)
next
  assume "fn w = (Inl e, w')"
  then show "fst (withErrorBoundary fn fallback context w) = Inr fallback"
    by (simp add: withErrorBoundary_def)
next
  assume f: "fn w = (Inl e, w')"
  show "\<exists>lines. lines \<noteq> []
          \<and> snd (withErrorBoundary fn fallback context w) = w'\<lparr>console := console w' @ lines\<rparr>
          \<and> list_all (\<lambda>l. fst l = (if isAuthenticationError e then WarnLevel else ErrorLevel)) lines
          \<and> ((\<exists>m. snd (hd lines) = AuthFailed (contextOrUnknown context) m)
               \<or> snd (hd lines) = ErrorIn (contextOrUnknown context) e)"
  proof (cases "isAuthenticationError e")
    case True
    with f show ?thesis
      by (intro exI [of _ "[(WarnLevel, AuthFailed (contextOrUnknown context)
              (case e of IsAPIError a \<Rightarrow> message a | _ \<Rightarrow> [])), (WarnLevel, AuthHint)]"])
         (simp add: withErrorBoundary_def console_warn_def)
  next
    case False
    show ?thesis
    proof (cases e)
      case (IsAPIError a)
      with f False show ?thesis
        by (intro exI [of _ "[(ErrorLevel, ErrorIn (contextOrUnknown context) e),
              (ErrorLevel, APIErrorDetail (status a) (endpoint a))]"])
           (simp add: withErrorBoundary_def console_error_def)
    qed (use f False in \<open>(intro exI [of _ "[(ErrorLevel, ErrorIn (contextOrUnknown context) e)]"],
           simp add: withErrorBoundary_def console_error_def)+\<close>)
  qed
next
  show "\<exists>v. fst (withErrorBoundary fn fallback context w) = Inr v"
    by (cases "fn w") (auto simp: withErrorBoundary_def split: sum.splits)
qed

theorem withErrorBoundary_fallback_witness:
  "withErrorBoundary freshArticles ''none'' (Some ''fetchStrapiPosts'') startup
      = (Inr ''fresh'', startup\<lparr>clock := 50, upstream := 1\<rparr>)
   \<and> fst (withErrorBoundary (alwaysRejected (IsAPIError unauthorized)) ''none''
            (Some ''fetchStrapiPosts'') startup) = Inr ''none''
   \<and> (\<exists>lines. lines \<noteq> []
         \<and> snd (withErrorBoundary (alwaysRejected (IsAPIError unauthorized)) ''none''
                  (Some ''fetchStrapiPosts'') startup)
             = startup\<lparr>upstream := 1, console := lines\<rparr>
         \<and> list_all (\<lambda>l. fst l = WarnLevel) lines)
   \<and> (\<exists>lines. lines \<noteq> []
         \<and> snd (withErrorBoundary (alwaysRejected (IsNetworkError ''timeout'')) ''none''
                  None startup)
             = startup\<lparr>upstream := 1, console := lines\<rparr>
         \<and> list_all (\<lambda>l. fst l = ErrorLevel) lines)"
proof -
  have ok: "freshArticles startup = (Inr ''fresh'', startup\<lparr>clock := 50, upstream := 1\<rparr>)"
    by (simp add: freshArticles_def startup_def)
  have auth: "alwaysRejected (IsAPIError unauthorized) startup
      = (Inl (IsAPIError unauthorized), startup\<lparr>upstream := 1\<rparr>)"
    by (simp add: alwaysRejected_def startup_def)
  have net: "alwaysRejected (IsNetworkError ''timeout'') startup
      = (Inl (IsNetworkError ''timeout''), startup\<lparr>upstream := 1\<rparr>)"
    by (simp add: alwaysRejected_def startup_def)
  have is401: "isAuthenticationError (IsAPIError unauthorized)"
    and not401: "\<not> isAuthenticationError (IsNetworkError ''timeout'')"
    by (simp_all add: isAuthenticationError_def unauthorized_def)
  have silent: "console (startup\<lparr>upstream := 1\<rparr>) = []"
    by (simp add: startup_def)
  from withErrorBoundary_fallback
         [of freshArticles startup "''fresh''" "startup\<lparr>clock := 50, upstream := 1\<rparr>"
             "''none''" "Some ''fetchStrapiPosts''"] ok
  have 1: "withErrorBoundary freshArticles ''none'' (Some ''fetchStrapiPosts'') startup
      = (Inr ''fresh'', startup\<lparr>clock := 50, upstream := 1\<rparr>)"
    by simp
  from withErrorBoundary_fallback
         [of "alwaysRejected (IsAPIError unauthorized)" startup _ "startup\<lparr>upstream := 1\<rparr>"
             "''none''" "Some ''fetchStrapiPosts''" "IsAPIError unauthorized"]
       auth is401 silent
  have 2: "fst (withErrorBoundary (alwaysRejected (IsAPIError unauthorized)) ''none''
            (Some ''fetchStrapiPosts'') startup) = Inr ''none''
     \<and> (\<exists>lines. lines \<noteq> []
         \<and> snd (withErrorBoundary (alwaysRejected (IsAPIError unauthorized)) ''none''
                  (Some ''fetchStrapiPosts'') startup)
             = startup\<lparr>upstream := 1, console := lines\<rparr>
         \<and> list_all (\<lambda>l. fst l = WarnLevel) lines)"
    by auto
  from withErrorBoundary_fallback
         [of "alwaysRejected (IsNetworkError ''timeout'')" startup _ "startup\<lparr>upstream := 1\<rparr>"
             "''none''" None "IsNetworkError ''timeout''"]
       net not401 silent
  have 3: "\<exists>lines. lines \<noteq> []
         \<and> snd (withErrorBoundary (alwaysRejected (IsNetworkError ''timeout'')) ''none''
                  None startup)
             = startup\<lparr>upstream := 1, console := lines\<rparr>
         \<and> list_all (\<lambda>l. fst l = ErrorLevel) lines"
    by auto
  from 1 2 3 show ?thesis by simp
qed

section \<open>Retry with backoff\<close>

lemma retry_loop_client_error:
  assumes "fn w = (Inl e, w')" and "isAPIClientError e" and "attempt \<le> maxRetries"
  shows "retry_loop fn maxRetries baseDelay attempt lastError w =
     \<lparr>retry_outcome = Inl e, retry_calls = 1, retry_delays = [], retry_world = w'\<rparr>"
  using assms by (subst retry_loop.simps) simp

text \<open>
  C6. When \<^verbatim>\<open>fn\<close> is rejected with an \<^verbatim>\<open>APIError\<close> that is a client error and not
  retryable (a 4xx status other than 429), \<^verbatim>\<open>retryWithBackoff\<close> with any
  \<^verbatim>\<open>maxRetries >= 0\<close> invokes \<^verbatim>\<open>fn\<close> exactly once, waits for no delay and rethrows that
  error, in the world the one call left.
\<close>

theorem retryWithBackoff_client_error_once:
  assumes "fn w = (Inl (IsAPIError a), w')" and "isClientError a" and "\<not> isRetryable a"
    and "0 \<le> maxRetries"
  shows "retryWithBackoff fn maxRetries baseDelay w =
     \<lparr>retry_outcome = Inl (IsAPIError a), retry_calls = 1, retry_delays = [], retry_world = w'\<rparr>"
  using assms by (simp add: retryWithBackoff_def retry_loop_client_error isAPIClientError_def)

theorem retryWithBackoff_client_error_once_witness:
  "retryWithBackoff (alwaysRejected (IsAPIError notFound)) 3 100 startup =
     \<lparr>retry_outcome = Inl (IsAPIError notFound), retry_calls = 1, retry_delays = [],
      retry_world = startup\<lparr>upstream := 1\<rparr>\<rparr>"
  using retryWithBackoff_client_error_once
          [of "alwaysRejected (IsAPIError notFound)" startup notFound "startup\<lparr>upstream := 1\<rparr>" 3 100]
  by (simp add: alwaysRejected_def notFound_def startup_def isClientError_def isRetryable_def)

text \<open>
  A callback that is rejected on every call with an error that is not an \<^verbatim>\<open>APIError\<close>
  client error is invoked \<^verbatim>\<open>maxRetries + 1\<close> times, with the delays
  \<^verbatim>\<open>baseDelay * 2^i\<close> for \<^verbatim>\<open>i = 0 .. maxRetries - 1\<close> in between, and the error of the
  last call is rethrown.
\<close>

lemma retry_loop_exhausts:
  assumes fails: "\<And>w. \<exists>e w'. fn w = (Inl e, w') \<and> \<not> isAPIClientError e"
    and "0 \<le> attempt" and "attempt \<le> maxRetries"
  shows "retry_calls (retry_loop fn maxRetries baseDelay attempt lastError w)
           = nat (maxRetries - attempt + 1)
       \<and> retry_delays (retry_loop fn maxRetries baseDelay attempt lastError w)
           = map (\<lambda>i. baseDelay * 2 ^ i) [nat attempt ..< nat maxRetries]
       \<and> (\<exists>w1 e. fn w1 = (Inl e, retry_world (retry_loop fn maxRetries baseDelay attempt lastError w))
              \<and> retry_outcome (retry_loop fn maxRetries baseDelay attempt lastError w) = Inl e)"
  using assms(2,3)
proof (induction "nat (maxRetries - attempt)" arbitrary: attempt lastError w)
  case 0
  then have last: "attempt = maxRetries" by simp
  obtain e w' where f: "fn w = (Inl e, w')" and nc: "\<not> isAPIClientError e"
    using fails by blast
  have "retry_loop fn maxRetries baseDelay attempt lastError w =
      \<lparr>retry_outcome = Inl e, retry_calls = 1, retry_delays = [], retry_world = w'\<rparr>"
    using f nc last by (subst retry_loop.simps) simp
  with f last show ?case by auto
next
  case (Suc n)
  then have lt: "attempt < maxRetries" by simp
  obtain e w' where f: "fn w = (Inl e, w')" and nc: "\<not> isAPIClientError e"
    using fails by blast
  define w2 where "w2 = setTimeout (baseDelay * 2 ^ nat attempt)
      (console_warn (AttemptFailed (attempt + 1) (baseDelay * 2 ^ nat attempt)) w')"
  define r where "r = retry_loop fn maxRetries baseDelay (attempt + 1) (Some e) w2"
  have unfold: "retry_loop fn maxRetries baseDelay attempt lastError w =
      r\<lparr>retry_calls := Suc (retry_calls r),
        retry_delays := (baseDelay * 2 ^ nat attempt) # retry_delays r\<rparr>"
    using f nc lt by (subst retry_loop.simps) (simp add: Let_def r_def w2_def)
  have n: "n = nat (maxRetries - (attempt + 1))" using Suc.hyps(2) by simp
  have ih: "retry_calls r = nat (maxRetries - (attempt + 1) + 1)
       \<and> retry_delays r = map (\<lambda>i. baseDelay * 2 ^ i) [nat (attempt + 1) ..< nat maxRetries]
       \<and> (\<exists>w1 e. fn w1 = (Inl e, retry_world r) \<and> retry_outcome r = Inl e)"
    unfolding r_def using Suc.hyps(1) [OF n] Suc.prems lt by simp
  have range: "[nat attempt ..< nat maxRetries] = nat attempt # [nat (attempt + 1) ..< nat maxRetries]"
    using lt Suc.prems by (simp add: upt_conv_Cons nat_add_distrib)
  show ?case
    unfolding unfold using ih lt Suc.prems by (simp add: range)
qed

lemma retryWithBackoff_exhausts:
  assumes "\<And>w. \<exists>e w'. fn w = (Inl e, w') \<and> \<not> isAPIClientError e" and "0 \<le> maxRetries"
  shows "retry_calls (retryWithBackoff fn maxRetries baseDelay w) = nat (maxRetries + 1)
       \<and> retry_delays (retryWithBackoff fn maxRetries baseDelay w)
           = map (\<lambda>i. baseDelay * 2 ^ i) [0 ..< nat maxRetries]
       \<and> (\<exists>w1 e. fn w1 = (Inl e, retry_world (retryWithBackoff fn maxRetries baseDelay w))
              \<and> retry_outcome (retryWithBackoff fn maxRetries baseDelay w) = Inl e)"
  unfolding retryWithBackoff_def
  using retry_loop_exhausts [of fn 0 maxRetries baseDelay None w] assms by simp

lemma retryWithBackoff_500_schedule:
  "retry_calls (retryWithBackoff (alwaysRejected (IsAPIError serverError)) 3 100 startup) = 4
   \<and> retry_delays (retryWithBackoff (alwaysRejected (IsAPIError serverError)) 3 100 startup)
       = [100, 200, 400]"
  using retryWithBackoff_exhausts [of "alwaysRejected (IsAPIError serverError)" 3 100 startup]
  by (simp add: alwaysRejected_def isAPIClientError_def isClientError_def serverError_def upt_rec)

text \<open>
  C5. Status 429 is retryable by \<^verbatim>\<open>isRetryable\<close>, and yet a callback rejected once with
  status 429 that would resolve on its second call is invoked once only: the loop tests
  \<^verbatim>\<open>isClientError\<close>, which holds of 429, and rethrows.
\<close>

theorem retryWithBackoff_429_not_retried:
  "isRetryable tooManyRequests
   \<and> retryWithBackoff rejectedOnceWith429 3 100 startup =
       \<lparr>retry_outcome = Inl (IsAPIError tooManyRequests), retry_calls = 1, retry_delays = [],
        retry_world = startup\<lparr>upstream := 1\<rparr>\<rparr>"
  by (simp add: isRetryable_def tooManyRequests_def retryWithBackoff_def retry_loop.simps
       rejectedOnceWith429_def startup_def isAPIClientError_def isClientError_def)

text \<open>
  C4. A callback rejected on every call with the retryable status 429 is invoked once,
  not \<^verbatim>\<open>maxRetries + 1 = 4\<close> times, and no delay is waited for.
\<close>

theorem retryWithBackoff_429_no_backoff:
  "isRetryable tooManyRequests
   \<and> retry_calls (retryWithBackoff (alwaysRejected (IsAPIError tooManyRequests)) 3 100 startup) = 1
   \<and> retry_delays (retryWithBackoff (alwaysRejected (IsAPIError tooManyRequests)) 3 100 startup) = []
   \<and> retry_outcome (retryWithBackoff (alwaysRejected (IsAPIError tooManyRequests)) 3 100 startup)
       = Inl (IsAPIError tooManyRequests)"
  by (simp add: isRetryable_def tooManyRequests_def retryWithBackoff_def retry_loop.simps
       alwaysRejected_def startup_def isAPIClientError_def isClientError_def)

section \<open>The cache: reads\<close>

lemma clock_logger_info [simp]: "clock (logger_info cfg m w) = clock w"
  by (simp add: logger_info_def console_log_def)

lemma evictIfFull_clock [simp]: "clock (snd (evictIfFull cfg this w)) = clock w"
  by (simp add: evictIfFull_def split: list.splits prod.splits)

lemma set_entry_stores:
  assumes "features_enableCache cfg"
  shows "map_of (cache (fst (set_entry cfg key d ttlArg this w))) key =
           Some \<lparr>data = d, timestamp = clock w, ttl = ttlOrDefault ttlArg (defaultTTL this)\<rparr>"
proof -
  obtain entries w1 where e: "evictIfFull cfg this w = (entries, w1)" by (cases "evictIfFull cfg this w")
  then have "clock w1 = clock w" using evictIfFull_clock [of cfg this w] by simp
  with e assms show ?thesis by (simp add: set_entry_def update_conv')
qed

lemma get_hit:
  assumes "features_enableCache cfg" "map_of (cache this) key = Some c" "clock w - timestamp c < ttl c"
  shows "get cfg key fetcher ttlArg this w =
     \<lparr>get_outcome = Inr (data c), get_branch = Hit, get_calls = 0,
      get_cache = this, get_world = logger_info cfg (CacheHit key) w\<rparr>"
  using assms by (simp add: get_def)

lemma get_not_hit:
  assumes "features_enableCache cfg"
    and "\<not> (\<exists>c. map_of (cache this) key = Some c \<and> clock w - timestamp c < ttl c)"
  shows "get cfg key fetcher ttlArg this w = get_miss cfg key fetcher ttlArg (map_of (cache this) key) this w"
  using assms by (auto simp: get_def Let_def split: option.splits)

lemma get_miss_calls [simp]: "get_calls (get_miss cfg key fetcher ttlArg cached this w) = 1"
  by (simp add: get_miss_def split: prod.splits sum.splits option.splits)

text \<open>
  C1. \<^verbatim>\<open>get\<close> returns the data of the stored entry without invoking the fetcher if
  and only if an entry for the key exists and \<^verbatim>\<open>now - timestamp < ttl\<close>, strictly. When
  the entry for the key has outlived its ttl the fetcher is invoked once, and when it
  resolves its value is returned and stored under the key, stamped with the time after
  the fetch. The cache is taken to be enabled, or disabled and empty as a disabled
  cache always is.
\<close>

theorem get_serves_valid_entry:
  assumes reachable: "features_enableCache cfg \<or> cache this = []"
  shows "(let r = get cfg key fetcher ttlArg this w in
           ((get_calls r = 0 \<and> (\<exists>c. map_of (cache this) key = Some c \<and> get_outcome r = Inr (data c)))
              \<longleftrightarrow> (\<exists>c. map_of (cache this) key = Some c \<and> clock w - timestamp c < ttl c))
         \<and> ((\<exists>c. map_of (cache this) key = Some c \<and> \<not> clock w - timestamp c < ttl c)
              \<longrightarrow> get_calls r = 1
                \<and> (\<forall>d w'. fetcher (logger_info cfg (CacheMiss key) w) = (Inr d, w')
                      \<longrightarrow> get_outcome r = Inr d
                        \<and> map_of (cache (get_cache r)) key =
                            Some \<lparr>data = d, timestamp = clock w',
                                  ttl = ttlOrDefault ttlArg (defaultTTL this)\<rparr>)))"
proof (cases "features_enableCache cfg")
  case False
  with reachable have "cache this = []" by simp
  with False show ?thesis
    by (simp add: get_def Let_def split: prod.splits)
next
  case enabled: True
  show ?thesis
  proof (cases "\<exists>c. map_of (cache this) key = Some c \<and> clock w - timestamp c < ttl c")
    case True
    then obtain c where c: "map_of (cache this) key = Some c" "clock w - timestamp c < ttl c"
      by blast
    show ?thesis
      unfolding Let_def get_hit [OF enabled c] using c by simp
  next
    case False
    have calls: "get_calls (get cfg key fetcher ttlArg this w) = 1"
      unfolding get_not_hit [OF enabled False] by simp
    have stored: "get_outcome (get cfg key fetcher ttlArg this w) = Inr d
        \<and> map_of (cache (get_cache (get cfg key fetcher ttlArg this w))) key =
             Some \<lparr>data = d, timestamp = clock w', ttl = ttlOrDefault ttlArg (defaultTTL this)\<rparr>"
      if f: "fetcher (logger_info cfg (CacheMiss key) w) = (Inr d, w')" for d w'
      unfolding get_not_hit [OF enabled False]
      using f set_entry_stores [OF enabled, of key d ttlArg this w']
      by (auto simp: get_miss_def split: prod.splits)
    show ?thesis
      unfolding Let_def using False calls stored by simp
  qed
qed

theorem get_serves_valid_entry_witness:
  "get_calls (get production ''b'' freshArticles None fullCache (startup\<lparr>clock := 999\<rparr>)) = 0
   \<and> get_outcome (get production ''b'' freshArticles None fullCache (startup\<lparr>clock := 999\<rparr>)) = Inr ''B''
   \<and> get_calls (get production ''b'' freshArticles None fullCache (startup\<lparr>clock := 1000\<rparr>)) = 1
   \<and> get_outcome (get production ''b'' freshArticles None fullCache (startup\<lparr>clock := 1000\<rparr>))
       = Inr ''fresh''
   \<and> map_of (cache (get_cache (get production ''b'' freshArticles None fullCache
                                  (startup\<lparr>clock := 1000\<rparr>)))) ''b''
       = Some \<lparr>data = ''fresh'', timestamp = 1050, ttl = 1000\<rparr>"
proof -
  have enabled: "features_enableCache production \<or> cache fullCache = []"
    by (simp add: production_def)
  have entry: "map_of (cache fullCache) ''b'' = Some \<lparr>data = ''B'', timestamp = 0, ttl = 1000\<rparr>"
    by (simp add: fullCache_def)
  have fetch: "freshArticles (logger_info production (CacheMiss ''b'') (startup\<lparr>clock := 1000\<rparr>))
      = (Inr ''fresh'', startup\<lparr>clock := 1050, upstream := 1\<rparr>)"
    by (simp add: freshArticles_def logger_info_def production_def startup_def)
  from get_serves_valid_entry [where cfg = production and key = "''b''" and fetcher = freshArticles
         and ttlArg = None and this = fullCache and w = "startup\<lparr>clock := 999\<rparr>", OF enabled]
  have hit: "get_calls (get production ''b'' freshArticles None fullCache (startup\<lparr>clock := 999\<rparr>)) = 0
      \<and> get_outcome (get production ''b'' freshArticles None fullCache (startup\<lparr>clock := 999\<rparr>)) = Inr ''B''"
    by (simp add: Let_def entry startup_def)
  from get_serves_valid_entry [where cfg = production and key = "''b''" and fetcher = freshArticles
         and ttlArg = None and this = fullCache and w = "startup\<lparr>clock := 1000\<rparr>", OF enabled]
  have miss: "get_calls (get production ''b'' freshArticles None fullCache (startup\<lparr>clock := 1000\<rparr>)) = 1
      \<and> get_outcome (get production ''b'' freshArticles None fullCache (startup\<lparr>clock := 1000\<rparr>))
          = Inr ''fresh''
      \<and> map_of (cache (get_cache (get production ''b'' freshArticles None fullCache
                                     (startup\<lparr>clock := 1000\<rparr>)))) ''b''
          = Some \<lparr>data = ''fresh'', timestamp = 1050, ttl = 1000\<rparr>"
    by (simp add: Let_def entry fetch ttlOrDefault_def) (simp add: startup_def fullCache_def)
  from hit miss show ?thesis by simp
qed

text \<open>
  C2. For a fetcher that throws whenever it is called, \<^verbatim>\<open>get\<close> returns the data of
  the entry stored for the key when there is one, expired or not, and throws exactly
  when there is none, and then what it throws is the fetcher's error; in every case
  the cache is left as it was. The cache is taken to be enabled, or disabled and
  empty as a disabled cache always is.
\<close>

theorem get_stale_on_failure:
  assumes reachable: "features_enableCache cfg \<or> cache this = []"
    and throws: "\<And>w1. \<exists>e w'. fetcher w1 = (Inl e, w')"
  shows "(let r = get cfg key fetcher ttlArg this w in
           (\<forall>c. map_of (cache this) key = Some c \<longrightarrow> get_outcome r = Inr (data c))
         \<and> ((\<exists>e. get_outcome r = Inl e) \<longleftrightarrow> map_of (cache this) key = None)
         \<and> (map_of (cache this) key = None \<longrightarrow> (\<exists>w1. fetcher w1 = (get_outcome r, get_world r)))
         \<and> get_cache r = this)"
proof (cases "features_enableCache cfg")
  case False
  with reachable have empty: "cache this = []" by simp
  obtain e w' where f: "fetcher w = (Inl e, w')" using throws by blast
  show ?thesis
    using False empty f by (auto simp: get_def Let_def)
next
  case enabled: True
  show ?thesis
  proof (cases "\<exists>c. map_of (cache this) key = Some c \<and> clock w - timestamp c < ttl c")
    case True
    then obtain c where c: "map_of (cache this) key = Some c" "clock w - timestamp c < ttl c" by blast
    show ?thesis
      unfolding Let_def get_hit [OF enabled c] using c by simp
  next
    case False
    obtain e w' where f: "fetcher (logger_info cfg (CacheMiss key) w) = (Inl e, w')"
      using throws by blast
    show ?thesis
      unfolding Let_def get_not_hit [OF enabled False]
      using f by (cases "map_of (cache this) key") (auto simp: get_miss_def)
  qed
qed

theorem get_stale_on_failure_witness:
  "get_outcome (get production ''b'' (alwaysRejected (IsNetworkError ''timeout'')) None fullCache
       (startup\<lparr>clock := 5000\<rparr>)) = Inr ''B''
   \<and> get_cache (get production ''b'' (alwaysRejected (IsNetworkError ''timeout'')) None fullCache
       (startup\<lparr>clock := 5000\<rparr>)) = fullCache
   \<and> get_outcome (get production ''c'' (alwaysRejected (IsNetworkError ''timeout'')) None fullCache
       (startup\<lparr>clock := 5000\<rparr>)) = Inl (IsNetworkError ''timeout'')
   \<and> get_cache (get production ''c'' (alwaysRejected (IsNetworkError ''timeout'')) None fullCache
       (startup\<lparr>clock := 5000\<rparr>)) = fullCache"
proof -
  have reachable: "features_enableCache production \<or> cache fullCache = []"
    by (simp add: production_def)
  have throws: "\<exists>e w'. alwaysRejected (IsNetworkError ''timeout'') w1 = (Inl e, w')" for w1 :: "nat world"
    by (simp add: alwaysRejected_def)
  have b: "map_of (cache fullCache) ''b'' = Some \<lparr>data = ''B'', timestamp = 0, ttl = 1000\<rparr>"
    and c: "map_of (cache fullCache) ''c'' = None"
    by (simp_all add: fullCache_def)
  from get_stale_on_failure [where cfg = production and this = fullCache
         and fetcher = "alwaysRejected (IsNetworkError ''timeout'')" and key = "''b''"
         and ttlArg = None and w = "startup\<lparr>clock := 5000\<rparr>", OF reachable throws] b
  have 1: "get_outcome (get production ''b'' (alwaysRejected (IsNetworkError ''timeout'')) None fullCache
       (startup\<lparr>clock := 5000\<rparr>)) = Inr ''B''
     \<and> get_cache (get production ''b'' (alwaysRejected (IsNetworkError ''timeout'')) None fullCache
       (startup\<lparr>clock := 5000\<rparr>)) = fullCache"
    by (simp add: Let_def)
  from get_stale_on_failure [where cfg = production and this = fullCache
         and fetcher = "alwaysRejected (IsNetworkError ''timeout'')" and key = "''c''"
         and ttlArg = None and w = "startup\<lparr>clock := 5000\<rparr>", OF reachable throws] c
  have 2: "get_outcome (get production ''c'' (alwaysRejected (IsNetworkError ''timeout'')) None fullCache
       (startup\<lparr>clock := 5000\<rparr>)) = Inl (IsNetworkError ''timeout'')
     \<and> get_cache (get production ''c'' (alwaysRejected (IsNetworkError ''timeout'')) None fullCache
       (startup\<lparr>clock := 5000\<rparr>)) = fullCache"
    by (auto simp: Let_def alwaysRejected_def)
  from 1 2 show ?thesis by simp
qed

section \<open>The cache, disabled\<close>

lemma get_disabled:
  "\<not> features_enableCache cfg \<Longrightarrow>
     get cfg key fetcher ttlArg this w =
       \<lparr>get_outcome = fst (fetcher w), get_branch = Bypass, get_calls = 1,
        get_cache = this, get_world = snd (fetcher w)\<rparr>"
  by (simp add: get_def split: prod.splits)

lemma step_keeps_empty:
  assumes "\<not> features_enableCache cfg" and "cache (fst s) = []"
  shows "cache (fst (step cfg operation s)) = []"
proof (cases s)
  case (Pair this w)
  with assms show ?thesis
    by (cases operation)
       (simp_all add: get_disabled set_entry_def delete_def clear_def cleanup_def Let_def)
qed

lemma run_keeps_empty:
  assumes "\<not> features_enableCache cfg" and "cache (fst s) = []"
  shows "cache (fst (run cfg ops s)) = []"
  using assms(2)
proof (induction ops arbitrary: s)
  case Nil
  then show ?case by simp
next
  case (Cons operation rest)
  then show ?case
    using Cons.IH [of "step cfg operation s"] step_keeps_empty [OF assms(1) Cons.prems] by simp
qed

text \<open>
  C8. With caching disabled, every \<^verbatim>\<open>get\<close> invokes the fetcher once, hands on its
  result and leaves the cache as it was; \<^verbatim>\<open>set\<close> changes nothing; and a cache that
  starts empty is empty after any sequence of calls.
\<close>

theorem cache_disabled_bypass:
  assumes "\<not> features_enableCache cfg"
  shows "get cfg key fetcher ttlArg this w =
           \<lparr>get_outcome = fst (fetcher w), get_branch = Bypass, get_calls = 1,
            get_cache = this, get_world = snd (fetcher w)\<rparr>
       \<and> set_entry cfg key d ttlArg this w = (this, w)
       \<and> (cache this = [] \<longrightarrow> cache (fst (run cfg ops (this, w))) = [])"
  using assms run_keeps_empty [OF assms, of "(this, w)" ops]
  by (simp add: get_disabled set_entry_def)


theorem cache_disabled_bypass_witness:
  "get cacheDisabled ''b'' freshArticles None emptyCache startup =
           \<lparr>get_outcome = Inr ''fresh'', get_branch = Bypass, get_calls = 1,
            get_cache = emptyCache, get_world = startup\<lparr>clock := 50, upstream := 1\<rparr>\<rparr>
   \<and> set_entry cacheDisabled ''b'' ''B'' None emptyCache startup = (emptyCache, startup)
   \<and> cache (fst (run cacheDisabled
                [Get ''a'' freshArticles None, Set ''b'' ''B'' None, Get ''a'' freshArticles None]
                (emptyCache, startup))) = []"
proof -
  have off: "\<not> features_enableCache cacheDisabled"
    by (simp add: cacheDisabled_def production_def)
  have empty: "cache emptyCache = []"
    by (simp add: emptyCache_def newMemoryCache_def)
  have fetch: "freshArticles startup = (Inr ''fresh'', startup\<lparr>clock := 50, upstream := 1\<rparr>)"
    by (simp add: freshArticles_def startup_def)
  from cache_disabled_bypass [OF off, where key = "''b''" and fetcher = freshArticles
      and ttlArg = None and this = emptyCache and w = startup and d = "''B''"
      and ops = "[Get ''a'' freshArticles None, Set ''b'' ''B'' None, Get ''a'' freshArticles None]"]
  show ?thesis by (simp add: empty fetch)
qed

section \<open>The cache: size and eviction\<close>

lemma get_cache_cases:
  fixes w :: "'u world"
  shows "get_cache (get cfg key fetcher ttlArg this w) = this
   \<or> (\<exists>d (w' :: 'u world). get_cache (get cfg key fetcher ttlArg this w) = fst (set_entry cfg key d ttlArg this w'))"
proof -
  have miss: "get_cache (get_miss cfg key fetcher ttlArg cached this w) = this
      \<or> (\<exists>d (w' :: 'u world). get_cache (get_miss cfg key fetcher ttlArg cached this w)
                   = fst (set_entry cfg key d ttlArg this w'))" for cached
  proof (cases "fetcher (logger_info cfg (CacheMiss key) w)")
    case (Pair r w')
    show ?thesis
    proof (cases r)
      case (Inl e)
      with Pair show ?thesis by (simp add: get_miss_def split: option.splits)
    next
      case (Inr d)
      with Pair have "get_cache (get_miss cfg key fetcher ttlArg cached this w)
          = fst (set_entry cfg key d ttlArg this w')"
        by (simp add: get_miss_def split: prod.splits)
      then show ?thesis by blast
    qed
  qed
  have "get_cache (get cfg key fetcher ttlArg this w) = this
      \<or> get_cache (get cfg key fetcher ttlArg this w)
          = get_cache (get_miss cfg key fetcher ttlArg (map_of (cache this) key) this w)"
    by (simp add: get_def Let_def split: option.splits prod.splits)
  with miss [of "map_of (cache this) key"] show ?thesis by metis
qed

lemma length_delete_head:
  "length (AList.delete k ((k, v) # xs)) \<le> length xs"
  by (simp add: AList.delete_eq)

lemma evictIfFull_room:
  assumes "bounded this"
  shows "int (length (fst (evictIfFull cfg this w))) < maxSize this"
proof (cases "int (length (cache this)) \<ge> maxSize this")
  case False
  then show ?thesis by (simp add: evictIfFull_def)
next
  case True
  with assms obtain k v xs where c: "cache this = (k, v) # xs"
    by (cases "cache this") (auto simp: bounded_def)
  with assms have k: "k \<noteq> []" by (auto simp: bounded_def)
  have "length (AList.delete k ((k, v) # xs)) \<le> length xs" by (rule length_delete_head)
  with assms c k True show ?thesis
    by (simp add: evictIfFull_def bounded_def)
qed

lemma evictIfFull_keys:
  "fst ` set (fst (evictIfFull cfg this w)) \<subseteq> fst ` set (cache this)"
  by (auto simp: evictIfFull_def AList.delete_eq split: list.splits)

lemma set_entry_maxSize [simp]: "maxSize (fst (set_entry cfg key d ttlArg this w)) = maxSize this"
  by (simp add: set_entry_def split: prod.splits)

lemma length_update_le: "length (AList.update k v al) \<le> Suc (length al)"
  by (induction al) auto

lemma set_entry_bounded:
  assumes "bounded this" and "key \<noteq> []"
  shows "bounded (fst (set_entry cfg key d ttlArg this w))"
proof (cases "features_enableCache cfg")
  case False
  with assms show ?thesis by (simp add: set_entry_def)
next
  case True
  obtain entries w1 where e: "evictIfFull cfg this w = (entries, w1)"
    by (cases "evictIfFull cfg this w")
  have room: "int (length entries) < maxSize this"
    using evictIfFull_room [OF assms(1), of cfg w] e by simp
  have keys: "fst ` set entries \<subseteq> fst ` set (cache this)"
    using evictIfFull_keys [of cfg this w] e by simp
  have nonempty: "[] \<notin> fst ` set (AList.update key x entries)" for x
    using keys assms unfolding dom_update bounded_def by blast
  have len: "int (length (AList.update key x entries)) \<le> maxSize this" for x
    using length_update_le [of key x entries] room by linarith
  show ?thesis
    using True e assms(1) nonempty len by (simp add: set_entry_def bounded_def)
qed

lemma get_bounded:
  assumes "bounded this" and "key \<noteq> []"
  shows "bounded (get_cache (get cfg key fetcher ttlArg this w))"
  using get_cache_cases [of cfg key fetcher ttlArg this w]
proof (elim disjE exE)
  assume "get_cache (get cfg key fetcher ttlArg this w) = this"
  with assms show ?thesis by simp
next
  fix d w'
  assume "get_cache (get cfg key fetcher ttlArg this w) = fst (set_entry cfg key d ttlArg this w')"
  with set_entry_bounded [OF assms] show ?thesis by simp
qed

lemma filter_bounded:
  assumes "bounded this"
  shows "bounded (this\<lparr>cache := filter P (cache this)\<rparr>)"
proof -
  from assms have a: "1 \<le> maxSize this" "int (length (cache this)) \<le> maxSize this"
      "[] \<notin> fst ` set (cache this)"
    by (simp_all add: bounded_def)
  have b: "int (length (filter P (cache this))) \<le> maxSize this"
    using a(2) length_filter_le [of P "cache this"] by linarith
  have c: "[] \<notin> fst ` set (filter P (cache this))"
    using a(3) by auto
  show ?thesis using a(1) b c by (simp add: bounded_def)
qed

lemma step_bounded:
  assumes "bounded (fst s)" and "key_of operation \<noteq> Some []"
  shows "bounded (fst (step cfg operation s))"
proof (cases s)
  case (Pair this w)
  show ?thesis
  proof (cases operation)
    case (Get key fetcher ttlArg)
    with assms Pair show ?thesis by (simp add: get_bounded Let_def)
  next
    case (Set key d ttlArg)
    with assms Pair show ?thesis by (simp add: set_entry_bounded)
  next
    case (Delete key)
    with assms Pair filter_bounded [of this] show ?thesis
      by (simp add: delete_def AList.delete_eq split: option.splits)
  next
    case Clear
    with assms Pair show ?thesis by (simp add: clear_def bounded_def)
  next
    case Cleanup
    with assms Pair filter_bounded [of this] show ?thesis
      by (simp add: cleanup_def Let_def)
  next
    case (Elapse d)
    with assms Pair show ?thesis by simp
  qed
qed

lemma run_bounded:
  assumes "bounded (fst s)" and "list_all (\<lambda>operation. key_of operation \<noteq> Some []) ops"
  shows "bounded (fst (run cfg ops s))"
  using assms
proof (induction ops arbitrary: s)
  case Nil
  then show ?case by simp
next
  case (Cons operation rest)
  then show ?case using step_bounded [of s operation cfg] by simp
qed

lemma get_maxSize: "maxSize (get_cache (get cfg key fetcher ttlArg this w)) = maxSize this"
  using get_cache_cases [of cfg key fetcher ttlArg this w]
proof (elim disjE exE)
  assume "get_cache (get cfg key fetcher ttlArg this w) = this"
  then show ?thesis by simp
next
  fix d w'
  assume "get_cache (get cfg key fetcher ttlArg this w) = fst (set_entry cfg key d ttlArg this w')"
  then show ?thesis by simp
qed

lemma step_maxSize: "maxSize (fst (step cfg operation s)) = maxSize (fst s)"
proof (cases s)
  case (Pair this w)
  then show ?thesis
    by (cases operation)
       (simp_all add: get_maxSize delete_def clear_def cleanup_def Let_def split: option.splits)
qed

lemma run_maxSize: "maxSize (fst (run cfg ops s)) = maxSize (fst s)"
  by (induction ops arbitrary: s) (simp_all add: step_maxSize)


lemma update_absent: "k \<notin> fst ` set al \<Longrightarrow> AList.update k v al = al @ [(k, v)]"
  by (induction al) auto

lemma evictIfFull_full:
  assumes "1 \<le> maxSize this" and "int (length (cache this)) \<ge> maxSize this"
    and "fst (hd (cache this)) \<noteq> []" and "distinct (map fst (cache this))"
  shows "fst (evictIfFull cfg this w) = tl (cache this)"
    and "clock (snd (evictIfFull cfg this w)) = clock w"
proof -
  from assms(1,2) obtain k v xs where c: "cache this = (k, v) # xs"
    by (cases "cache this") auto
  with assms(4) have "k \<notin> fst ` set xs" by simp
  then have "AList.delete k xs = xs" by simp
  with c assms(2,3) show "fst (evictIfFull cfg this w) = tl (cache this)"
    by (simp add: evictIfFull_def)
  show "clock (snd (evictIfFull cfg this w)) = clock w" by simp
qed

lemma set_entry_full:
  assumes "features_enableCache cfg" and "1 \<le> maxSize this"
    and "int (length (cache this)) \<ge> maxSize this"
    and "fst (hd (cache this)) \<noteq> []" and "distinct (map fst (cache this))"
  shows "cache (fst (set_entry cfg key d ttlArg this w)) =
           AList.update key
             \<lparr>data = d, timestamp = clock w, ttl = ttlOrDefault ttlArg (defaultTTL this)\<rparr>
             (tl (cache this))"
proof -
  obtain entries w1 where e: "evictIfFull cfg this w = (entries, w1)"
    by (cases "evictIfFull cfg this w")
  with evictIfFull_full [OF assms(2-5), of cfg w]
  have "entries = tl (cache this)" and "clock w1 = clock w" by simp_all
  with e assms(1) show ?thesis by (simp add: set_entry_def)
qed

lemma set_entry_room:
  assumes "features_enableCache cfg" and "int (length (cache this)) < maxSize this"
  shows "cache (fst (set_entry cfg key d ttlArg this w)) =
           AList.update key
             \<lparr>data = d, timestamp = clock w, ttl = ttlOrDefault ttlArg (defaultTTL this)\<rparr>
             (cache this)"
  using assms by (simp add: set_entry_def evictIfFull_def)

text \<open>
  C3, as the code has it. With \<^verbatim>\<open>maxSize >= 1\<close> and no empty key, a cache that starts
  empty never holds more than \<^verbatim>\<open>maxSize\<close> entries, whatever is called on it. A \<^verbatim>\<open>set\<close>
  on a cache that holds \<^verbatim>\<open>maxSize\<close> entries or more, with a non-empty oldest key, first
  removes the one oldest-inserted entry, whether or not the key is present, and then
  writes the entry: at the end when the key is new. A \<^verbatim>\<open>set\<close> on a cache below
  \<^verbatim>\<open>maxSize\<close> removes nothing, and replaces the entry of a key that is present where it
  stands.
\<close>

theorem set_entry_eviction_policy:
  "(1 \<le> maxSize this \<and> cache this = []
      \<and> list_all (\<lambda>operation. key_of operation \<noteq> Some []) ops
      \<longrightarrow> int (length (cache (fst (run cfg ops (this, w))))) \<le> maxSize this)
   \<and> (features_enableCache cfg \<and> 1 \<le> maxSize this
        \<and> int (length (cache this)) \<ge> maxSize this
        \<and> fst (hd (cache this)) \<noteq> [] \<and> distinct (map fst (cache this))
      \<longrightarrow> cache (fst (set_entry cfg key d ttlArg this w)) =
            AList.update key
              \<lparr>data = d, timestamp = clock w, ttl = ttlOrDefault ttlArg (defaultTTL this)\<rparr>
              (tl (cache this))
          \<and> (key \<notin> fst ` set (cache this)
              \<longrightarrow> cache (fst (set_entry cfg key d ttlArg this w)) =
                    tl (cache this)
                    @ [(key, \<lparr>data = d, timestamp = clock w,
                               ttl = ttlOrDefault ttlArg (defaultTTL this)\<rparr>)]))
   \<and> (features_enableCache cfg \<and> int (length (cache this)) < maxSize this
      \<longrightarrow> cache (fst (set_entry cfg key d ttlArg this w)) =
            AList.update key
              \<lparr>data = d, timestamp = clock w, ttl = ttlOrDefault ttlArg (defaultTTL this)\<rparr>
              (cache this)
          \<and> (key \<in> fst ` set (cache this)
              \<longrightarrow> map fst (cache (fst (set_entry cfg key d ttlArg this w))) = map fst (cache this)))"
proof (intro conjI impI)
  assume a: "1 \<le> maxSize this \<and> cache this = []
      \<and> list_all (\<lambda>operation. key_of operation \<noteq> Some []) ops"
  then have "bounded (fst (this, w))" by (simp add: bounded_def)
  with a have "bounded (fst (run cfg ops (this, w)))" by (intro run_bounded) simp_all
  then show "int (length (cache (fst (run cfg ops (this, w))))) \<le> maxSize this"
    by (simp add: bounded_def run_maxSize)
next
  assume a: "features_enableCache cfg \<and> 1 \<le> maxSize this
        \<and> int (length (cache this)) \<ge> maxSize this
        \<and> fst (hd (cache this)) \<noteq> [] \<and> distinct (map fst (cache this))"
  then show full: "cache (fst (set_entry cfg key d ttlArg this w)) =
            AList.update key
              \<lparr>data = d, timestamp = clock w, ttl = ttlOrDefault ttlArg (defaultTTL this)\<rparr>
              (tl (cache this))"
    by (intro set_entry_full) simp_all
  assume "key \<notin> fst ` set (cache this)"
  then have "key \<notin> fst ` set (tl (cache this))"
    by (cases "cache this") auto
  then show "cache (fst (set_entry cfg key d ttlArg this w)) =
                    tl (cache this)
                    @ [(key, \<lparr>data = d, timestamp = clock w,
                               ttl = ttlOrDefault ttlArg (defaultTTL this)\<rparr>)]"
    unfolding full by (rule update_absent)
next
  assume a: "features_enableCache cfg \<and> int (length (cache this)) < maxSize this"
  then show room: "cache (fst (set_entry cfg key d ttlArg this w)) =
            AList.update key
              \<lparr>data = d, timestamp = clock w, ttl = ttlOrDefault ttlArg (defaultTTL this)\<rparr>
              (cache this)"
    by (intro set_entry_room) simp_all
  assume "key \<in> fst ` set (cache this)"
  then show "map fst (cache (fst (set_entry cfg key d ttlArg this w))) = map fst (cache this)"
    unfolding room by (simp add: update_keys)
qed

theorem set_entry_eviction_policy_witness:
  "int (length (cache (fst (run production
      [Set ''a'' ''A'' None, Set ''b'' ''B'' None, Set ''c'' ''C'' None] (emptyCache, startup)))))
     \<le> 2
   \<and> cache (fst (set_entry production ''c'' ''C'' None fullCache startup))
       = [(''b'', \<lparr>data = ''B'', timestamp = 0, ttl = 1000\<rparr>),
          (''c'', \<lparr>data = ''C'', timestamp = 0, ttl = 1000\<rparr>)]
   \<and> map fst (cache (fst (set_entry production ''a'' ''A2'' None (fullCache\<lparr>maxSize := 3\<rparr>) startup)))
       = [''a'', ''b'']"
proof -
  have on: "features_enableCache production" by (simp add: production_def)
  from set_entry_eviction_policy [where this = emptyCache and cfg = production and w = startup
      and ops = "[Set ''a'' ''A'' None, Set ''b'' ''B'' None, Set ''c'' ''C'' None]"]
  have 1: "int (length (cache (fst (run production
      [Set ''a'' ''A'' None, Set ''b'' ''B'' None, Set ''c'' ''C'' None] (emptyCache, startup)))))
     \<le> 2"
    by (simp add: emptyCache_def newMemoryCache_def)
  from set_entry_eviction_policy [where this = fullCache and cfg = production and w = startup
      and key = "''c''" and d = "''C''" and ttlArg = None] on
  have 2: "cache (fst (set_entry production ''c'' ''C'' None fullCache startup))
       = [(''b'', \<lparr>data = ''B'', timestamp = 0, ttl = 1000\<rparr>),
          (''c'', \<lparr>data = ''C'', timestamp = 0, ttl = 1000\<rparr>)]"
    by (simp add: fullCache_def startup_def ttlOrDefault_def)
  from set_entry_eviction_policy [where this = "fullCache\<lparr>maxSize := 3\<rparr>" and cfg = production
      and w = startup and key = "''a''" and d = "''A2''" and ttlArg = None] on
  have 3: "map fst (cache (fst (set_entry production ''a'' ''A2'' None (fullCache\<lparr>maxSize := 3\<rparr>) startup)))
       = [''a'', ''b'']"
    by (simp add: fullCache_def)
  from 1 2 3 show ?thesis by simp
qed

text \<open>
  C3, as it stands, fails on the code: replacing the entry of the present key \<open>b\<close> in
  a full cache evicts the oldest entry \<open>a\<close>.
\<close>

theorem set_entry_present_key_counterexample:
  "map_of (cache fullCache) ''b'' = Some \<lparr>data = ''B'', timestamp = 0, ttl = 1000\<rparr>
   \<and> map_of (cache fullCache) ''a'' = Some \<lparr>data = ''A'', timestamp = 0, ttl = 1000\<rparr>
   \<and> int (length (cache fullCache)) = maxSize fullCache
   \<and> cache (fst (set_entry production ''b'' ''B2'' None fullCache startup))
       = [(''b'', \<lparr>data = ''B2'', timestamp = 0, ttl = 1000\<rparr>)]"
  by (simp add: fullCache_def set_entry_def evictIfFull_def production_def startup_def
        logger_info_def ttlOrDefault_def)

text \<open>With the empty string as oldest key the truthiness guard skips the eviction and
  the map outgrows \<^verbatim>\<open>maxSize\<close>.\<close>

lemma set_entry_empty_key_overflow:
  "length (cache (fst (set_entry production ''c'' ''C'' None
      (fullCache\<lparr>cache := [([], \<lparr>data = ''A'', timestamp = 0, ttl = 1000\<rparr>),
                           (''b'', \<lparr>data = ''B'', timestamp = 0, ttl = 1000\<rparr>)]\<rparr>)
      startup))) = 3"
  by (simp add: fullCache_def set_entry_def evictIfFull_def production_def startup_def
        logger_info_def ttlOrDefault_def)

section \<open>The content manager: derived reads\<close>

lemma withErrorBoundary_total:
  "\<exists>v w'. withErrorBoundary fn fallback context w = (Inr v, w')"
  by (cases "fn w") (auto simp: withErrorBoundary_def split: sum.splits)

lemma get_total_fetcher:
  assumes "\<And>w1. \<exists>v w'. fetcher w1 = (Inr v, w')"
  shows "(\<exists>v. get_outcome (get cfg key fetcher ttlArg this w) = Inr v)
       \<and> get_branch (get cfg key fetcher ttlArg this w) \<noteq> Stale
       \<and> get_branch (get cfg key fetcher ttlArg this w) \<noteq> Failed"
proof -
  obtain v w' where direct: "fetcher w = (Inr v, w')" using assms by blast
  obtain v1 w1 where logged: "fetcher (logger_info cfg (CacheMiss key) w) = (Inr v1, w1)"
    using assms by blast
  have miss: "(\<exists>v. get_outcome (get_miss cfg key fetcher ttlArg cached this w) = Inr v)
       \<and> get_branch (get_miss cfg key fetcher ttlArg cached this w) = Fetched" for cached
    using logged by (simp add: get_miss_def split: prod.splits)
  show ?thesis
    using direct miss by (auto simp: get_def Let_def split: option.splits)
qed

lemma slice_page:
  assumes "0 \<le> start" and "0 \<le> n"
  shows "slice xs start (start + n) = take (nat n) (drop (nat start) xs)"
proof (cases "start < int (length xs)")
  case False
  with assms show ?thesis by (simp add: slice_def Let_def)
next
  case True
  show ?thesis
  proof (cases "start + n \<le> int (length xs)")
    case True
    with assms \<open>start < int (length xs)\<close> show ?thesis
      by (simp add: slice_def Let_def min_def)
  next
    case False
    with assms \<open>start < int (length xs)\<close> show ?thesis
      by (simp add: slice_def Let_def min_def)
  qed
qed

lemma ceilDiv_ceiling:
  assumes "1 \<le> pageSize"
  shows "ceilDiv n pageSize = Finite \<lceil>real_of_int n / real_of_int pageSize\<rceil>"
  using assms by (simp add: ceilDiv_def ceiling_divide_eq_div)

lemma paginate_page:
  assumes "1 \<le> page" and "1 \<le> pageSize"
  shows "paginate page pageSize allPosts =
     \<lparr>posts = take (nat pageSize) (drop (nat ((page - 1) * pageSize)) allPosts),
      total = int (length allPosts),
      totalPages = Finite \<lceil>real (length allPosts) / real_of_int pageSize\<rceil>,
      currentPage = page\<rparr>"
proof -
  have "0 \<le> (page - 1) * pageSize" using assms by simp
  then have "slice allPosts ((page - 1) * pageSize) ((page - 1) * pageSize + pageSize)
      = take (nat pageSize) (drop (nat ((page - 1) * pageSize)) allPosts)"
    using assms by (intro slice_page) simp_all
  then show ?thesis
    using assms by (simp add: paginate_def Let_def ceilDiv_ceiling)
qed

lemma fetchStrapiPosts_total:
  "\<exists>v w'. fetchStrapiPosts this cfg strapi w = (Inr v, w')"
  unfolding fetchStrapiPosts_def by (rule withErrorBoundary_total)

lemma getSortedPosts_resolves:
  "\<exists>allPosts. get_outcome (getSortedPosts this cfg strapi apiCache w) = Inr allPosts"
proof (cases "useCache (options this)")
  case False
  obtain v w' where "fetchStrapiPosts this cfg strapi w = (Inr v, w')"
    using fetchStrapiPosts_total by blast
  with False show ?thesis
    by (simp add: getSortedPosts_def getStrapiPostsWithFallback_def uncached_def)
next
  case True
  from get_total_fetcher [of "fetchStrapiPosts this cfg strapi", OF fetchStrapiPosts_total] True
  show ?thesis
    by (simp add: getSortedPosts_def getStrapiPostsWithFallback_def)
qed


lemma awaitThen_effects [simp]: "effects (awaitThen f r) = effects r"
  by (simp add: effects_def awaitThen_def)

text \<open>
  C9. \<^verbatim>\<open>getSortedPosts\<close> always resolves, to a list \<open>allPosts\<close>, and every derived
  read is that one call followed by a computation in memory: \<^verbatim>\<open>getPostsByTag\<close> returns
  the posts of \<open>allPosts\<close> whose tags include the tag, \<^verbatim>\<open>getPostsByCategory\<close> those
  whose category equals the category, in the order of \<open>allPosts\<close>; for \<^verbatim>\<open>page >= 1\<close>
  and \<^verbatim>\<open>pageSize >= 1\<close>, \<^verbatim>\<open>getPaginatedPosts\<close> returns the at most \<^verbatim>\<open>pageSize\<close> posts
  from index \<^verbatim>\<open>(page - 1) * pageSize\<close> on, the length of \<open>allPosts\<close> as total and the
  ceiling of \<^verbatim>\<open>total / pageSize\<close> as number of pages. The path taken, the fetcher
  invocations, the cache and the world left behind by each derived read, the count and
  the search included, are those of \<^verbatim>\<open>getSortedPosts\<close>.
\<close>

theorem derived_reads_use_getSortedPosts:
  "\<exists>allPosts.
      get_outcome (getSortedPosts this cfg strapi apiCache w) = Inr allPosts
    \<and> getPostsByTag this cfg strapi tag apiCache w
        = (getSortedPosts this cfg strapi apiCache w)
            \<lparr>get_outcome :=
               Inr [post \<leftarrow> allPosts. \<exists>ts. tags (post_data post) = Some ts \<and> tag \<in> set ts]\<rparr>
    \<and> getPostsByCategory this cfg strapi category' apiCache w
        = (getSortedPosts this cfg strapi apiCache w)
            \<lparr>get_outcome := Inr [post \<leftarrow> allPosts. category (post_data post) = category']\<rparr>
    \<and> effects (getPaginatedPosts this cfg strapi (Some page) (Some pageSize) apiCache w)
        = effects (getSortedPosts this cfg strapi apiCache w)
    \<and> (1 \<le> page \<and> 1 \<le> pageSize \<longrightarrow>
         get_outcome (getPaginatedPosts this cfg strapi (Some page) (Some pageSize) apiCache w)
           = Inr \<lparr>posts = take (nat pageSize) (drop (nat ((page - 1) * pageSize)) allPosts),
                  total = int (length allPosts),
                  totalPages = Finite \<lceil>real (length allPosts) / real_of_int pageSize\<rceil>,
                  currentPage = page\<rparr>
         \<and> int (length (take (nat pageSize) (drop (nat ((page - 1) * pageSize)) allPosts)))
             \<le> pageSize)
    \<and> effects (getPostCount this cfg strapi apiCache w)
        = effects (getSortedPosts this cfg strapi apiCache w)
    \<and> get_outcome (getPostCount this cfg strapi apiCache w) = Inr (length allPosts)
    \<and> effects (searchPosts toLowerCase this cfg strapi query apiCache w)
        = effects (getSortedPosts this cfg strapi apiCache w)
    \<and> (\<exists>found. get_outcome (searchPosts toLowerCase this cfg strapi query apiCache w) = Inr found
           \<and> set found \<subseteq> set allPosts)"
proof -
  obtain allPosts where all: "get_outcome (getSortedPosts this cfg strapi apiCache w) = Inr allPosts"
    using getSortedPosts_resolves by blast
  have tagged: "(\<lambda>post. case tags (post_data post) of None \<Rightarrow> False | Some ts \<Rightarrow> List.member ts tag)
      = (\<lambda>post. \<exists>ts. tags (post_data post) = Some ts \<and> tag \<in> set ts)"
    by (auto simp: fun_eq_iff split: option.splits)
  have byTag: "getPostsByTag this cfg strapi tag apiCache w
        = (getSortedPosts this cfg strapi apiCache w)
            \<lparr>get_outcome :=
               Inr [post \<leftarrow> allPosts. \<exists>ts. tags (post_data post) = Some ts \<and> tag \<in> set ts]\<rparr>"
    using all by (simp add: getPostsByTag_def awaitThen_def tagged)
  have byCategory: "getPostsByCategory this cfg strapi category' apiCache w
        = (getSortedPosts this cfg strapi apiCache w)
            \<lparr>get_outcome := Inr [post \<leftarrow> allPosts. category (post_data post) = category']\<rparr>"
    using all by (simp add: getPostsByCategory_def awaitThen_def)
  have page: "get_outcome (getPaginatedPosts this cfg strapi (Some page) (Some pageSize) apiCache w)
           = Inr \<lparr>posts = take (nat pageSize) (drop (nat ((page - 1) * pageSize)) allPosts),
                  total = int (length allPosts),
                  totalPages = Finite \<lceil>real (length allPosts) / real_of_int pageSize\<rceil>,
                  currentPage = page\<rparr>"
    if "1 \<le> page" "1 \<le> pageSize"
    using all that by (simp add: getPaginatedPosts_def awaitThen_def paginate_page)
  have short: "int (length (take (nat pageSize) (drop (nat ((page - 1) * pageSize)) allPosts)))
             \<le> pageSize" if "1 \<le> pageSize"
    using that by simp
  have count: "get_outcome (getPostCount this cfg strapi apiCache w) = Inr (length allPosts)"
    using all by (simp add: getPostCount_def awaitThen_def)
  have search: "\<exists>found. get_outcome (searchPosts toLowerCase this cfg strapi query apiCache w) = Inr found
           \<and> set found \<subseteq> set allPosts"
    using all by (simp add: searchPosts_def awaitThen_def Let_def)
  show ?thesis
    using all byTag byCategory page short count search
    by (intro exI [of _ allPosts])
       (simp add: getPaginatedPosts_def getPostCount_def searchPosts_def)
qed

lemma sortedPosts_online:
  "get_outcome (getSortedPosts manager production strapiOnline postsCache startup)
     = Inr [helloWorld, cachingNotes, untagged]"
  by (simp add: getSortedPosts_def getStrapiPostsWithFallback_def manager_def newContentManager_def
        production_def get_def get_miss_def postsCache_def newMemoryCache_def Let_def
        fetchStrapiPosts_def withErrorBoundary_def strapiOnline_def logger_info_def
        logger_success_def set_entry_def evictIfFull_def split: prod.splits)

theorem derived_reads_use_getSortedPosts_witness:
  "get_outcome (getPaginatedPosts manager production strapiOnline (Some 2) (Some 2) postsCache startup)
     = Inr \<lparr>posts = [untagged], total = 3, totalPages = Finite 2, currentPage = 2\<rparr>
   \<and> get_outcome (getPostsByTag manager production strapiOnline ''cache'' postsCache startup)
     = Inr [cachingNotes]
   \<and> get_outcome (getPostsByCategory manager production strapiOnline ''engineering'' postsCache startup)
     = Inr [cachingNotes, untagged]"
proof -
  have ceil: "\<lceil>(3::real) / 2\<rceil> = 2" by simp
  from derived_reads_use_getSortedPosts [where this = manager and cfg = production
      and strapi = strapiOnline and apiCache = postsCache and w = startup and page = 2
      and pageSize = 2 and tag = "''cache''" and category' = "''engineering''"]
  show ?thesis
    by (simp add: sortedPosts_online ceil) (simp add: helloWorld_def cachingNotes_def untagged_def)
qed

section \<open>The shared cache: the same method\<close>

lemma clock_console_warn [simp]: "clock (console_warn m w) = clock w"
  by (simp add: console_warn_def)

lemma clock_console_error [simp]: "clock (console_error m w) = clock w"
  by (simp add: console_error_def)

lemma apiCache_of_log [simp]:
  "apiCache_of (logger_info cfg m w) = apiCache_of w"
  "apiCache_of (logger_success cfg m w) = apiCache_of w"
  "apiCache_of (logger_warn m w) = apiCache_of w"
  "apiCache_of (console_warn m w) = apiCache_of w"
  "apiCache_of (console_error m w) = apiCache_of w"
  "apiCache_of (setTimeout d w) = apiCache_of w"
  by (simp_all add: apiCache_of_def logger_info_def logger_success_def logger_warn_def
        console_log_def console_warn_def console_error_def setTimeout_def)

lemma apiCache_of_with [simp]: "apiCache_of (with_apiCache this w) = this"
  by (simp add: apiCache_of_def with_apiCache_def)

lemma clock_with_apiCache [simp]: "clock (with_apiCache this w) = clock w"
  by (simp add: with_apiCache_def)

lemma outside_of_log [simp]:
  "outside_of (logger_info cfg m w) = logger_info cfg m (outside_of w)"
  "outside_of (logger_warn m w) = logger_warn m (outside_of w)"
  by (simp_all add: outside_of_def logger_info_def logger_warn_def console_log_def console_warn_def)

lemma outside_of_with [simp]: "outside_of (with_apiCache this w) = outside_of w"
  by (simp add: outside_of_def with_apiCache_def)

lemma outside_of_outside:
  "outside f w = (r, w') \<Longrightarrow> f (outside_of w) = (r, outside_of w') \<and> apiCache_of w' = apiCache_of w"
  by (auto simp: outside_def outside_of_def apiCache_of_def split: prod.splits)

lemma evictIfFull_outside:
  "fst (evictIfFull cfg this (outside_of w)) = fst (evictIfFull cfg this w)"
  "snd (evictIfFull cfg this (outside_of w)) = outside_of (snd (evictIfFull cfg this w))"
  by (simp_all add: evictIfFull_def split: list.splits)

lemma set_entry_outside:
  "fst (set_entry cfg key d ttlArg this (outside_of w)) = fst (set_entry cfg key d ttlArg this w)"
  "snd (set_entry cfg key d ttlArg this (outside_of w))
     = outside_of (snd (set_entry cfg key d ttlArg this w))"
proof -
  obtain entries w1 where e: "evictIfFull cfg this w = (entries, w1)"
    by (cases "evictIfFull cfg this w")
  with evictIfFull_outside [of cfg this w]
  have e0: "evictIfFull cfg this (outside_of w) = (entries, outside_of w1)"
    by (cases "evictIfFull cfg this (outside_of w)") simp
  have c: "clock (outside_of w1) = clock w1" by (simp add: outside_of_def)
  show "fst (set_entry cfg key d ttlArg this (outside_of w)) = fst (set_entry cfg key d ttlArg this w)"
    using e e0 c by (simp add: set_entry_def)
  show "snd (set_entry cfg key d ttlArg this (outside_of w))
      = outside_of (snd (set_entry cfg key d ttlArg this w))"
    using e e0 by (simp add: set_entry_def)
qed

text \<open>
  With a fetcher that acts outside the process only, a read of the shared cache is the
  read of a cache passed as a value: the same outcome, path and fetcher invocations, the
  same cache and the same world left behind.
\<close>

lemma apiCache_get_agrees:
  "get_outcome (apiCache_get cfg key (outside f) ttlArg w)
     = get_outcome (get cfg key f ttlArg (apiCache_of w) (outside_of w))
   \<and> get_branch (apiCache_get cfg key (outside f) ttlArg w)
     = get_branch (get cfg key f ttlArg (apiCache_of w) (outside_of w))
   \<and> get_calls (apiCache_get cfg key (outside f) ttlArg w)
     = get_calls (get cfg key f ttlArg (apiCache_of w) (outside_of w))
   \<and> apiCache_of (get_world (apiCache_get cfg key (outside f) ttlArg w))
     = get_cache (get cfg key f ttlArg (apiCache_of w) (outside_of w))
   \<and> outside_of (get_world (apiCache_get cfg key (outside f) ttlArg w))
     = get_world (get cfg key f ttlArg (apiCache_of w) (outside_of w))"
proof -
  have c: "clock (outside_of v) = clock v" for v :: "('v MemoryCache \<times> 'x) world"
    by (simp add: outside_of_def)
  have miss: "get_outcome (apiCache_get_miss cfg key (outside f) ttlArg cached w)
     = get_outcome (get_miss cfg key f ttlArg cached (apiCache_of w) (outside_of w))
   \<and> get_branch (apiCache_get_miss cfg key (outside f) ttlArg cached w)
     = get_branch (get_miss cfg key f ttlArg cached (apiCache_of w) (outside_of w))
   \<and> get_calls (apiCache_get_miss cfg key (outside f) ttlArg cached w)
     = get_calls (get_miss cfg key f ttlArg cached (apiCache_of w) (outside_of w))
   \<and> apiCache_of (get_world (apiCache_get_miss cfg key (outside f) ttlArg cached w))
     = get_cache (get_miss cfg key f ttlArg cached (apiCache_of w) (outside_of w))
   \<and> outside_of (get_world (apiCache_get_miss cfg key (outside f) ttlArg cached w))
     = get_world (get_miss cfg key f ttlArg cached (apiCache_of w) (outside_of w))" for cached
  proof -
    obtain r w' where o: "outside f (logger_info cfg (CacheMiss key) w) = (r, w')"
      by (cases "outside f (logger_info cfg (CacheMiss key) w)")
    from outside_of_outside [OF o]
    have f: "f (logger_info cfg (CacheMiss key) (outside_of w)) = (r, outside_of w')"
      and k: "apiCache_of w' = apiCache_of w" by simp_all
    show ?thesis
    proof (cases r)
      case (Inl e)
      with o f k show ?thesis
        by (simp add: apiCache_get_miss_def get_miss_def split: option.splits)
    next
      case (Inr d)
      obtain this' w2 where s: "set_entry cfg key d ttlArg (apiCache_of w) w' = (this', w2)"
        by (cases "set_entry cfg key d ttlArg (apiCache_of w) w'")
      with set_entry_outside [of cfg key d ttlArg "apiCache_of w" w']
      have s0: "set_entry cfg key d ttlArg (apiCache_of w) (outside_of w') = (this', outside_of w2)"
        by (cases "set_entry cfg key d ttlArg (apiCache_of w) (outside_of w')") simp
      from Inr o f k s s0 show ?thesis
        by (simp add: apiCache_get_miss_def get_miss_def)
    qed
  qed
  obtain r w' where o: "outside f w = (r, w')" by (cases "outside f w")
  from outside_of_outside [OF o] have f: "f (outside_of w) = (r, outside_of w')"
    and k: "apiCache_of w' = apiCache_of w" by simp_all
  show ?thesis
  proof (cases "features_enableCache cfg")
    case False
    with o f k show ?thesis by (simp add: apiCache_get_def get_def)
  next
    case True
    then show ?thesis
      using miss by (simp add: apiCache_get_def get_def Let_def c split: option.splits)
  qed
qed

lemma apiCache_get_hit:
  assumes "features_enableCache cfg" "map_of (cache (apiCache_of w)) key = Some c"
    "clock w - timestamp c < ttl c"
  shows "apiCache_get cfg key fetcher ttlArg w =
     \<lparr>get_outcome = Inr (data c), get_branch = Hit, get_calls = 0,
      get_cache = apiCache_of w, get_world = logger_info cfg (CacheHit key) w\<rparr>"
  using assms by (simp add: apiCache_get_def)

lemma apiCache_get_not_hit:
  assumes "features_enableCache cfg"
    and "\<not> (\<exists>c. map_of (cache (apiCache_of w)) key = Some c \<and> clock w - timestamp c < ttl c)"
  shows "apiCache_get cfg key fetcher ttlArg w
    = apiCache_get_miss cfg key fetcher ttlArg (map_of (cache (apiCache_of w)) key) w"
  using assms by (auto simp: apiCache_get_def Let_def split: option.splits)

text \<open>A miss whose fetcher resolves: the value is returned and stored in the cache that
  the fetcher left.\<close>

lemma apiCache_get_fetched:
  assumes enabled: "features_enableCache cfg"
    and miss: "\<not> (\<exists>c. map_of (cache (apiCache_of w)) key = Some c \<and> clock w - timestamp c < ttl c)"
    and fetched: "fetcher (logger_info cfg (CacheMiss key) w) = (Inr v, w1)"
  shows "get_outcome (apiCache_get cfg key fetcher ttlArg w) = Inr v"
    and "get_branch (apiCache_get cfg key fetcher ttlArg w) = Fetched"
    and "get_calls (apiCache_get cfg key fetcher ttlArg w) = 1"
    and "map_of (cache (apiCache_of (get_world (apiCache_get cfg key fetcher ttlArg w)))) key =
           Some \<lparr>data = v, timestamp = clock (get_world (apiCache_get cfg key fetcher ttlArg w)),
                 ttl = ttlOrDefault ttlArg (defaultTTL (apiCache_of w1))\<rparr>"
proof -
  have r: "apiCache_get cfg key fetcher ttlArg w
      = apiCache_get_miss cfg key fetcher ttlArg (map_of (cache (apiCache_of w)) key) w"
    by (rule apiCache_get_not_hit [OF enabled miss])
  obtain this' w2 where s: "set_entry cfg key v ttlArg (apiCache_of w1) w1 = (this', w2)"
    by (cases "set_entry cfg key v ttlArg (apiCache_of w1) w1")
  have t: "clock w2 = clock w1"
    using s enabled by (auto simp: set_entry_def split: prod.splits)
       (metis evictIfFull_clock snd_conv)
  have m: "map_of (cache this') key
      = Some \<lparr>data = v, timestamp = clock w1, ttl = ttlOrDefault ttlArg (defaultTTL (apiCache_of w1))\<rparr>"
    using set_entry_stores [OF enabled, of key v ttlArg "apiCache_of w1" w1] s by simp
  show "get_outcome (apiCache_get cfg key fetcher ttlArg w) = Inr v"
    and "get_branch (apiCache_get cfg key fetcher ttlArg w) = Fetched"
    and "get_calls (apiCache_get cfg key fetcher ttlArg w) = 1"
    unfolding r using fetched s by (simp_all add: apiCache_get_miss_def)
  show "map_of (cache (apiCache_of (get_world (apiCache_get cfg key fetcher ttlArg w)))) key =
           Some \<lparr>data = v, timestamp = clock (get_world (apiCache_get cfg key fetcher ttlArg w)),
                 ttl = ttlOrDefault ttlArg (defaultTTL (apiCache_of w1))\<rparr>"
    unfolding r using fetched s t m by (simp add: apiCache_get_miss_def)
qed

lemma apiCache_get_total_fetcher:
  assumes "\<And>w1. \<exists>v w'. fetcher w1 = (Inr v, w')"
  shows "(\<exists>v. get_outcome (apiCache_get cfg key fetcher ttlArg w) = Inr v)
       \<and> get_branch (apiCache_get cfg key fetcher ttlArg w) \<noteq> Stale
       \<and> get_branch (apiCache_get cfg key fetcher ttlArg w) \<noteq> Failed"
proof -
  obtain v w' where direct: "fetcher w = (Inr v, w')" using assms by blast
  obtain v1 w1 where logged: "fetcher (logger_info cfg (CacheMiss key) w) = (Inr v1, w1)"
    using assms by blast
  have miss: "(\<exists>v. get_outcome (apiCache_get_miss cfg key fetcher ttlArg cached w) = Inr v)
       \<and> get_branch (apiCache_get_miss cfg key fetcher ttlArg cached w) = Fetched" for cached
    using logged by (simp add: apiCache_get_miss_def split: prod.splits)
  show ?thesis
    using direct miss by (auto simp: apiCache_get_def Let_def split: option.splits)
qed

text \<open>A fetcher that throws and leaves the cache as it is: the read throws when the key
  has no entry and takes the stale-data path when it has an expired one.\<close>

lemma apiCache_get_failing:
  assumes enabled: "features_enableCache cfg"
    and failing: "\<And>w1. \<exists>e w'. fetcher w1 = (Inl e, w') \<and> apiCache_of w' = apiCache_of w1"
  shows "map_of (cache (apiCache_of w)) key = None \<Longrightarrow>
           (\<exists>e. get_outcome (apiCache_get cfg key fetcher ttlArg w) = Inl e)
           \<and> get_branch (apiCache_get cfg key fetcher ttlArg w) = Failed
           \<and> apiCache_of (get_world (apiCache_get cfg key fetcher ttlArg w)) = apiCache_of w"
    and "map_of (cache (apiCache_of w)) key = Some c \<Longrightarrow> \<not> clock w - timestamp c < ttl c \<Longrightarrow>
           get_outcome (apiCache_get cfg key fetcher ttlArg w) = Inr (data c)
           \<and> get_branch (apiCache_get cfg key fetcher ttlArg w) = Stale
           \<and> apiCache_of (get_world (apiCache_get cfg key fetcher ttlArg w)) = apiCache_of w"
proof -
  obtain e w' where f: "fetcher (logger_info cfg (CacheMiss key) w) = (Inl e, w')"
    and c: "apiCache_of w' = apiCache_of w"
    using failing [of "logger_info cfg (CacheMiss key) w"] by auto
  show "map_of (cache (apiCache_of w)) key = None \<Longrightarrow>
           (\<exists>e. get_outcome (apiCache_get cfg key fetcher ttlArg w) = Inl e)
           \<and> get_branch (apiCache_get cfg key fetcher ttlArg w) = Failed
           \<and> apiCache_of (get_world (apiCache_get cfg key fetcher ttlArg w)) = apiCache_of w"
    using enabled f c by (simp add: apiCache_get_def apiCache_get_miss_def)
  show "map_of (cache (apiCache_of w)) key = Some c \<Longrightarrow> \<not> clock w - timestamp c < ttl c \<Longrightarrow>
           get_outcome (apiCache_get cfg key fetcher ttlArg w) = Inr (data c)
           \<and> get_branch (apiCache_get cfg key fetcher ttlArg w) = Stale
           \<and> apiCache_of (get_world (apiCache_get cfg key fetcher ttlArg w)) = apiCache_of w"
    using enabled f c by (simp add: apiCache_get_def apiCache_get_miss_def)
qed

section \<open>The Strapi client when every request fails\<close>

lemma fetchFunction_fails:
  assumes "\<And>w1. \<exists>e w'. fetchAPI lib PublishedArticles w1 = (Inl e, w')"
  shows "\<exists>e w'. fetchFunction cfg lib w = (Inl e, w') \<and> apiCache_of w' = apiCache_of w"
proof -
  obtain e w' where "fetchAPI lib PublishedArticles (outside_of w) = (Inl e, w')"
    using assms by blast
  then show ?thesis
    by (simp add: fetchFunction_def outside_def apiCache_of_def)
qed

text \<open>A callback that throws on every call and leaves the cache as it is: so does the
  retry loop around it, whatever the number of retries.\<close>

lemma retry_loop_fails:
  assumes "\<forall>w. \<exists>e w'. fn w = (Inl e, w') \<and> apiCache_of w' = apiCache_of w"
  shows "(\<exists>e. retry_outcome (retry_loop fn maxRetries baseDelay attempt lastError w) = Inl e)
       \<and> apiCache_of (retry_world (retry_loop fn maxRetries baseDelay attempt lastError w))
           = apiCache_of w"
  using assms
proof (induction fn maxRetries baseDelay attempt lastError w rule: retry_loop.induct)
  case (1 fn maxRetries baseDelay attempt lastError w)
  show ?case
  proof (cases "attempt \<le> maxRetries")
    case False
    then show ?thesis by (subst (1 2) retry_loop.simps) simp
  next
    case True
    obtain e w' where f: "fn w = (Inl e, w')" and c: "apiCache_of w' = apiCache_of w"
      using "1.prems" by blast
    show ?thesis
    proof (cases "isAPIClientError e \<or> attempt = maxRetries")
      case True
      with f c \<open>attempt \<le> maxRetries\<close> show ?thesis
        by (subst (1 2) retry_loop.simps) auto
    next
      case False
      from "1.IH" [OF \<open>attempt \<le> maxRetries\<close> f [symmetric] refl _ _ refl "1.prems"] False
      have ih: "(\<exists>e'. retry_outcome (retry_loop fn maxRetries baseDelay (attempt + 1) (Some e)
                 (setTimeout (baseDelay * 2 ^ nat attempt)
                    (console_warn (AttemptFailed (attempt + 1) (baseDelay * 2 ^ nat attempt)) w'))) = Inl e')
          \<and> apiCache_of (retry_world (retry_loop fn maxRetries baseDelay (attempt + 1) (Some e)
                 (setTimeout (baseDelay * 2 ^ nat attempt)
                    (console_warn (AttemptFailed (attempt + 1) (baseDelay * 2 ^ nat attempt)) w'))))
             = apiCache_of w'"
        by simp
      with f c False \<open>attempt \<le> maxRetries\<close> show ?thesis
        by (subst (1 2) retry_loop.simps) (simp add: Let_def)
    qed
  qed
qed

lemma publishedArticles_fetcher_fails:
  assumes "\<And>w1. \<exists>e w'. fetchAPI lib PublishedArticles w1 = (Inl e, w')"
  shows "\<exists>e w'. keptAs CachedResponse
          (\<lambda>w. if \<not> features_enableRetry api then fetchFunction cfg lib w
                else
                  (let r = retryWithBackoff (fetchFunction cfg lib) (api_retryAttempts api)
                             (api_retryBaseDelay api) w
                   in (retry_outcome r, retry_world r))) w = (Inl e, w')
          \<and> apiCache_of w' = apiCache_of w"
proof (cases "features_enableRetry api")
  case False
  from fetchFunction_fails [OF assms, of cfg w] False show ?thesis
    by (auto simp: keptAs_def)
next
  case True
  have "\<forall>w. \<exists>e w'. fetchFunction cfg lib w = (Inl e, w') \<and> apiCache_of w' = apiCache_of w"
    using fetchFunction_fails [OF assms] by blast
  from retry_loop_fails [OF this, of "api_retryAttempts api" "api_retryBaseDelay api" 0 None w] True
  show ?thesis
    by (auto simp: keptAs_def retryWithBackoff_def Let_def)
qed

text \<open>\<^verbatim>\<open>getPublishedArticles\<close> when every request fails: it throws when \<^verbatim>\<open>apiCache\<close>
  has no entry under its key and returns the expired entry when there is one.\<close>

lemma getPublishedArticles_down:
  assumes enabled: "features_enableCache cfg"
    and down: "\<And>w1. \<exists>e w'. fetchAPI lib PublishedArticles w1 = (Inl e, w')"
  shows "map_of (cache (apiCache_of w)) publishedArticlesKey = None \<Longrightarrow>
           (\<exists>e. get_outcome (getPublishedArticles cfg api lib w) = Inl e)
           \<and> get_branch (getPublishedArticles cfg api lib w) = Failed
           \<and> apiCache_of (get_world (getPublishedArticles cfg api lib w)) = apiCache_of w"
    and "map_of (cache (apiCache_of w)) publishedArticlesKey = Some c \<Longrightarrow>
           \<not> clock w - timestamp c < ttl c \<Longrightarrow>
           get_outcome (getPublishedArticles cfg api lib w) = Inr (data c)
           \<and> get_branch (getPublishedArticles cfg api lib w) = Stale
           \<and> apiCache_of (get_world (getPublishedArticles cfg api lib w)) = apiCache_of w"
  unfolding getPublishedArticles_def
  by (rule apiCache_get_failing [OF enabled publishedArticles_fetcher_fails [OF down]]; assumption)+

section \<open>The upstream module never throws\<close>

lemma strapiContentUtils_getSortedPosts_total:
  "\<exists>ps w'. strapiContentUtils_getSortedPosts cfg api lib w = (Inr ps, w')"
  by (simp add: strapiContentUtils_getSortedPosts_def Let_def split: sum.splits)

lemma strapiContentUtils_getPostBySlug_total:
  "\<exists>p w'. strapiContentUtils_getPostBySlug lib slug w = (Inr p, w')"
  by (cases "getArticleBySlug lib slug w")
     (auto simp: strapiContentUtils_getPostBySlug_def split: sum.splits list.splits)

lemma strapiContentUtils_getSortedPosts_down:
  assumes enabled: "features_enableCache cfg"
    and down: "\<And>w1. \<exists>e w'. fetchAPI lib PublishedArticles w1 = (Inl e, w')"
  shows "map_of (cache (apiCache_of w)) publishedArticlesKey = None \<Longrightarrow>
           \<exists>w'. strapiContentUtils_getSortedPosts cfg api lib w = (Inr [], w')
                \<and> apiCache_of w' = apiCache_of w"
    and "map_of (cache (apiCache_of w)) publishedArticlesKey = Some c \<Longrightarrow>
           \<not> clock w - timestamp c < ttl c \<Longrightarrow>
           \<exists>w'. strapiContentUtils_getSortedPosts cfg api lib w
                   = (Inr (case sortedPostsOf lib (data c) of Inr ps \<Rightarrow> ps | Inl e \<Rightarrow> []), w')
                \<and> apiCache_of w' = apiCache_of w"
proof -
  show "map_of (cache (apiCache_of w)) publishedArticlesKey = None \<Longrightarrow>
           \<exists>w'. strapiContentUtils_getSortedPosts cfg api lib w = (Inr [], w')
                \<and> apiCache_of w' = apiCache_of w"
    using getPublishedArticles_down(1) [OF enabled down, of w api]
    by (auto simp: strapiContentUtils_getSortedPosts_def Let_def)
  show "map_of (cache (apiCache_of w)) publishedArticlesKey = Some c \<Longrightarrow>
           \<not> clock w - timestamp c < ttl c \<Longrightarrow>
           \<exists>w'. strapiContentUtils_getSortedPosts cfg api lib w
                   = (Inr (case sortedPostsOf lib (data c) of Inr ps \<Rightarrow> ps | Inl e \<Rightarrow> []), w')
                \<and> apiCache_of w' = apiCache_of w"
    using getPublishedArticles_down(2) [OF enabled down, of w c api]
    by (auto simp: strapiContentUtils_getSortedPosts_def Let_def split: sum.splits)
qed

lemma strapiContentUtils_getPostBySlug_down:
  assumes "\<And>t w1. \<exists>e w'. fetchAPI lib (ArticleBySlug slug t) w1 = (Inl e, w')"
  shows "\<exists>w'. strapiContentUtils_getPostBySlug lib slug w = (Inr Null, w')
            \<and> apiCache_of w' = apiCache_of w"
proof -
  obtain e w' where "fetchAPI lib (ArticleBySlug slug (clock w)) (outside_of w) = (Inl e, w')"
    using assms by blast
  then show ?thesis
    by (simp add: strapiContentUtils_getPostBySlug_def getArticleBySlug_def outside_def
          apiCache_of_def console_error_def)
qed

section \<open>The content manager: a failed fetch is cached\<close>

lemma fetchStrapiPostBySlug_total:
  "\<exists>v w'. fetchStrapiPostBySlug this cfg strapi slug w = (Inr v, w')"
  unfolding fetchStrapiPostBySlug_def by (rule withErrorBoundary_total)

lemma fetchStrapiPosts_passes:
  assumes "strapi_getSortedPosts strapi (logger_info cfg FetchingPosts w) = (Inr ps, w')"
  shows "fetchStrapiPosts this cfg strapi w
    = (Inr ps, logger_success cfg (FetchedPosts (length ps)) w')"
  using assms by (simp add: fetchStrapiPosts_def withErrorBoundary_def)

lemma fetchStrapiPostBySlug_null:
  assumes "strapi_getPostBySlug strapi slug (logger_info cfg (FetchingPost slug) w) = (Inr Null, w')"
  shows "fetchStrapiPostBySlug this cfg strapi slug w
    = (Inr Null, logger_warn (PostNotFound slug) w')"
  using assms by (simp add: fetchStrapiPostBySlug_def withErrorBoundary_def)

lemma keptAs_total:
  assumes "\<And>w1. \<exists>v w'. f w1 = (Inr v, w')"
  shows "\<exists>v w'. keptAs inject f w = (Inr v, w')"
proof -
  obtain v w' where "f w = (Inr v, w')" using assms by blast
  then show ?thesis by (simp add: keptAs_def)
qed

lemma apiCache_getSortedPosts_branch:
  "get_branch (apiCache_getSortedPosts this cfg api lib w) \<noteq> Stale
   \<and> get_branch (apiCache_getSortedPosts this cfg api lib w) \<noteq> Failed"
proof (cases "useCache (options this)")
  case False
  then show ?thesis
    by (simp add: apiCache_getSortedPosts_def apiCache_uncached_def split: prod.splits)
next
  case True
  from apiCache_get_total_fetcher [of
      "keptAs CachedPosts (fetchStrapiPosts this cfg (strapiContentUtils cfg api lib))",
      OF keptAs_total [OF fetchStrapiPosts_total]] True
  show ?thesis
    by (simp add: apiCache_getSortedPosts_def)
qed

lemma apiCache_getPostBySlug_branch:
  "get_branch (apiCache_getPostBySlug this cfg api lib slug w) \<noteq> Stale
   \<and> get_branch (apiCache_getPostBySlug this cfg api lib slug w) \<noteq> Failed"
proof (cases "useCache (options this)")
  case False
  then show ?thesis
    by (simp add: apiCache_getPostBySlug_def apiCache_uncached_def split: prod.splits)
next
  case True
  from apiCache_get_total_fetcher [of
      "keptAs CachedPost (fetchStrapiPostBySlug this cfg (strapiContentUtils cfg api lib) slug)",
      OF keptAs_total [OF fetchStrapiPostBySlug_total]] True
  show ?thesis
    by (simp add: apiCache_getPostBySlug_def)
qed

text \<open>A miss of the key of the post list, when the upstream module resolves to \<open>ps\<close>
  and leaves the cache as it is: \<open>ps\<close> is returned and stored.\<close>

lemma apiCache_getSortedPosts_stores:
  assumes inUse: "useCache (options this)" and enabled: "features_enableCache cfg"
    and miss: "\<not> (\<exists>c. map_of (cache (apiCache_of w)) (sortedPostsKey this) = Some c
                     \<and> clock w - timestamp c < ttl c)"
    and resolved: "\<exists>w'. strapiContentUtils_getSortedPosts cfg api lib
              (logger_info cfg FetchingPosts (logger_info cfg (CacheMiss (sortedPostsKey this)) w))
            = (Inr ps, w') \<and> apiCache_of w' = apiCache_of w"
  shows "get_outcome (apiCache_getSortedPosts this cfg api lib w) = Inr (CachedPosts ps)
       \<and> get_calls (apiCache_getSortedPosts this cfg api lib w) = 1
       \<and> map_of (cache (apiCache_of (get_world (apiCache_getSortedPosts this cfg api lib w))))
           (sortedPostsKey this)
         = Some \<lparr>data = CachedPosts ps,
                 timestamp = clock (get_world (apiCache_getSortedPosts this cfg api lib w)),
                 ttl = ttlOrDefault (Some (cacheTTL (options this))) (defaultTTL (apiCache_of w))\<rparr>"
proof -
  obtain w' where u: "strapiContentUtils_getSortedPosts cfg api lib
              (logger_info cfg FetchingPosts (logger_info cfg (CacheMiss (sortedPostsKey this)) w))
            = (Inr ps, w')" and c: "apiCache_of w' = apiCache_of w"
    using resolved by blast
  have f: "keptAs CachedPosts (fetchStrapiPosts this cfg (strapiContentUtils cfg api lib))
             (logger_info cfg (CacheMiss (sortedPostsKey this)) w)
        = (Inr (CachedPosts ps), logger_success cfg (FetchedPosts (length ps)) w')"
    using fetchStrapiPosts_passes [where strapi = "strapiContentUtils cfg api lib" and this = this
        and cfg = cfg and w = "logger_info cfg (CacheMiss (sortedPostsKey this)) w" and ps = ps
        and w' = w'] u
    by (simp add: keptAs_def strapiContentUtils_def)
  note facts = apiCache_get_fetched [where ttlArg = "Some (cacheTTL (options this))"
      and fetcher = "keptAs CachedPosts (fetchStrapiPosts this cfg (strapiContentUtils cfg api lib))",
      OF enabled miss f]
  show ?thesis
    using facts(1,3,4) inUse c by (simp add: apiCache_getSortedPosts_def)
qed

lemma apiCache_getPostBySlug_stores:
  assumes inUse: "useCache (options this)" and enabled: "features_enableCache cfg"
    and miss: "\<not> (\<exists>c. map_of (cache (apiCache_of w)) (postBySlugKey this slug) = Some c
                     \<and> clock w - timestamp c < ttl c)"
    and down: "\<And>t w1. \<exists>e w'. fetchAPI lib (ArticleBySlug slug t) w1 = (Inl e, w')"
  shows "get_outcome (apiCache_getPostBySlug this cfg api lib slug w) = Inr (CachedPost Null)
       \<and> get_calls (apiCache_getPostBySlug this cfg api lib slug w) = 1
       \<and> map_of (cache (apiCache_of (get_world (apiCache_getPostBySlug this cfg api lib slug w))))
           (postBySlugKey this slug)
         = Some \<lparr>data = CachedPost Null,
                 timestamp = clock (get_world (apiCache_getPostBySlug this cfg api lib slug w)),
                 ttl = ttlOrDefault (Some (cacheTTL (options this))) (defaultTTL (apiCache_of w))\<rparr>"
proof -
  let ?w0 = "logger_info cfg (FetchingPost slug)
               (logger_info cfg (CacheMiss (postBySlugKey this slug)) w)"
  obtain w' where u: "strapiContentUtils_getPostBySlug lib slug ?w0 = (Inr Null, w')"
    and c: "apiCache_of w' = apiCache_of ?w0"
    using strapiContentUtils_getPostBySlug_down [OF down, of ?w0] by blast
  have f: "keptAs CachedPost (fetchStrapiPostBySlug this cfg (strapiContentUtils cfg api lib) slug)
             (logger_info cfg (CacheMiss (postBySlugKey this slug)) w)
        = (Inr (CachedPost Null), logger_warn (PostNotFound slug) w')"
    using fetchStrapiPostBySlug_null [where strapi = "strapiContentUtils cfg api lib"
        and this = this and cfg = cfg and slug = slug
        and w = "logger_info cfg (CacheMiss (postBySlugKey this slug)) w" and w' = w'] u
    by (simp add: keptAs_def strapiContentUtils_def)
  note facts = apiCache_get_fetched [where ttlArg = "Some (cacheTTL (options this))"
      and fetcher = "keptAs CachedPost
        (fetchStrapiPostBySlug this cfg (strapiContentUtils cfg api lib) slug)",
      OF enabled miss f]
  show ?thesis
    using facts(1,3,4) inUse c by (simp add: apiCache_getPostBySlug_def)
qed

text \<open>
  C10, as the code has it. The callbacks the content manager hands to \<^verbatim>\<open>apiCache.get\<close>
  never throw, so no read that the content manager makes takes the stale-data path of the
  cache or throws. With the cache in use, when the query key has no valid entry and every
  request to Strapi fails:

  \<^item> \<^verbatim>\<open>getSortedPosts\<close>, when \<^verbatim>\<open>apiCache\<close> has no entry under \<^verbatim>\<open>published-articles\<close>:
    the read of that key by \<^verbatim>\<open>getPublishedArticles\<close>, nested in the callback, throws
    after its retries, the upstream module makes the empty list of it, and the empty list
    is returned after one call of the callback and stored under the query key, stamped
    with the time at the end of the query and kept for the configured ttl;
  \<^item> \<^verbatim>\<open>getSortedPosts\<close>, when \<^verbatim>\<open>apiCache\<close> holds an expired entry under
    \<^verbatim>\<open>published-articles\<close>: the nested read takes the stale-data path, and the posts
    made of the expired data (the empty list, if making them throws) are returned and
    stored in the same way;
  \<^item> \<^verbatim>\<open>getPostBySlug\<close>: \<^verbatim>\<open>null\<close> is returned and stored in the same way.

  The entry replaces whatever was under the query key. Every later query that finds under
  its key an entry younger than the ttl of the entry resolves to the data of the entry
  without any call, whatever Strapi would answer, and leaves at most a debug line.
\<close>

theorem content_manager_caches_failed_fetch:
  fixes lib :: "('a, 'x) backend" and w :: "('a cacheValue MemoryCache \<times> 'x) world"
  assumes inUse: "useCache (options this)" and enabled: "features_enableCache cfg"
  shows
   "(\<exists>v w1. fetchStrapiPosts this cfg (strapiContentUtils cfg api lib) w = (Inr v, w1))
    \<and> (\<exists>v w1. fetchStrapiPostBySlug this cfg (strapiContentUtils cfg api lib) slug w = (Inr v, w1))
    \<and> get_branch (apiCache_getSortedPosts this cfg api lib w) \<noteq> Stale
    \<and> get_branch (apiCache_getSortedPosts this cfg api lib w) \<noteq> Failed
    \<and> get_branch (apiCache_getPostBySlug this cfg api lib slug w) \<noteq> Stale
    \<and> get_branch (apiCache_getPostBySlug this cfg api lib slug w) \<noteq> Failed
    \<and> (let key = sortedPostsKey this;
            lifetime = ttlOrDefault (Some (cacheTTL (options this))) (defaultTTL (apiCache_of w));
            r = apiCache_getSortedPosts this cfg api lib w;
            nested = getPublishedArticles cfg api lib
                       (logger_info cfg FetchingPosts (logger_info cfg (CacheMiss key) w))
        in \<not> (\<exists>c. map_of (cache (apiCache_of w)) key = Some c \<and> clock w - timestamp c < ttl c)
           \<and> (\<forall>w1. \<exists>e w'. fetchAPI lib PublishedArticles w1 = (Inl e, w'))
           \<longrightarrow>
             (map_of (cache (apiCache_of w)) publishedArticlesKey = None \<longrightarrow>
                get_branch nested = Failed
                \<and> get_outcome r = Inr (CachedPosts []) \<and> get_calls r = 1
                \<and> map_of (cache (apiCache_of (get_world r))) key
                    = Some \<lparr>data = CachedPosts [], timestamp = clock (get_world r),
                            ttl = lifetime\<rparr>)
             \<and> (\<forall>c. map_of (cache (apiCache_of w)) publishedArticlesKey = Some c
                    \<and> \<not> clock w - timestamp c < ttl c \<longrightarrow>
                get_branch nested = Stale
                \<and> (let stalePosts = (case sortedPostsOf lib (data c) of
                                        Inr ps \<Rightarrow> ps | Inl e \<Rightarrow> [])
                    in get_outcome r = Inr (CachedPosts stalePosts) \<and> get_calls r = 1
                       \<and> map_of (cache (apiCache_of (get_world r))) key
                           = Some \<lparr>data = CachedPosts stalePosts,
                                   timestamp = clock (get_world r), ttl = lifetime\<rparr>)))
    \<and> (let key = postBySlugKey this slug;
            lifetime = ttlOrDefault (Some (cacheTTL (options this))) (defaultTTL (apiCache_of w));
            r = apiCache_getPostBySlug this cfg api lib slug w
        in \<not> (\<exists>c. map_of (cache (apiCache_of w)) key = Some c \<and> clock w - timestamp c < ttl c)
           \<and> (\<forall>t w1. \<exists>e w'. fetchAPI lib (ArticleBySlug slug t) w1 = (Inl e, w'))
           \<longrightarrow> get_outcome r = Inr (CachedPost Null) \<and> get_calls r = 1
             \<and> map_of (cache (apiCache_of (get_world r))) key
                 = Some \<lparr>data = CachedPost Null, timestamp = clock (get_world r),
                         ttl = lifetime\<rparr>)
    \<and> (\<forall>api' (lib' :: ('a, 'x) backend) c w2.
          map_of (cache (apiCache_of w2)) (sortedPostsKey this) = Some c
          \<and> clock w2 - timestamp c < ttl c \<longrightarrow>
          get_outcome (apiCache_getSortedPosts this cfg api' lib' w2) = Inr (data c)
          \<and> get_calls (apiCache_getSortedPosts this cfg api' lib' w2) = 0
          \<and> get_world (apiCache_getSortedPosts this cfg api' lib' w2)
              = logger_info cfg (CacheHit (sortedPostsKey this)) w2)
    \<and> (\<forall>api' (lib' :: ('a, 'x) backend) c w2.
          map_of (cache (apiCache_of w2)) (postBySlugKey this slug) = Some c
          \<and> clock w2 - timestamp c < ttl c \<longrightarrow>
          get_outcome (apiCache_getPostBySlug this cfg api' lib' slug w2) = Inr (data c)
          \<and> get_calls (apiCache_getPostBySlug this cfg api' lib' slug w2) = 0
          \<and> get_world (apiCache_getPostBySlug this cfg api' lib' slug w2)
              = logger_info cfg (CacheHit (postBySlugKey this slug)) w2)"
proof -
  let ?inner = "logger_info cfg FetchingPosts (logger_info cfg (CacheMiss (sortedPostsKey this)) w)"
  have posts: "(map_of (cache (apiCache_of w)) publishedArticlesKey = None \<longrightarrow>
        get_branch (getPublishedArticles cfg api lib ?inner) = Failed
        \<and> get_outcome (apiCache_getSortedPosts this cfg api lib w) = Inr (CachedPosts [])
        \<and> get_calls (apiCache_getSortedPosts this cfg api lib w) = 1
        \<and> map_of (cache (apiCache_of (get_world (apiCache_getSortedPosts this cfg api lib w))))
            (sortedPostsKey this)
          = Some \<lparr>data = CachedPosts [],
                  timestamp = clock (get_world (apiCache_getSortedPosts this cfg api lib w)),
                  ttl = ttlOrDefault (Some (cacheTTL (options this)))
                          (defaultTTL (apiCache_of w))\<rparr>)
      \<and> (\<forall>c. map_of (cache (apiCache_of w)) publishedArticlesKey = Some c
              \<and> \<not> clock w - timestamp c < ttl c \<longrightarrow>
        get_branch (getPublishedArticles cfg api lib ?inner) = Stale
        \<and> get_outcome (apiCache_getSortedPosts this cfg api lib w)
            = Inr (CachedPosts (case sortedPostsOf lib (data c) of Inr ps \<Rightarrow> ps | Inl e \<Rightarrow> []))
        \<and> get_calls (apiCache_getSortedPosts this cfg api lib w) = 1
        \<and> map_of (cache (apiCache_of (get_world (apiCache_getSortedPosts this cfg api lib w))))
            (sortedPostsKey this)
          = Some \<lparr>data = CachedPosts
                           (case sortedPostsOf lib (data c) of Inr ps \<Rightarrow> ps | Inl e \<Rightarrow> []),
                  timestamp = clock (get_world (apiCache_getSortedPosts this cfg api lib w)),
                  ttl = ttlOrDefault (Some (cacheTTL (options this)))
                          (defaultTTL (apiCache_of w))\<rparr>)"
    if miss: "\<not> (\<exists>c. map_of (cache (apiCache_of w)) (sortedPostsKey this) = Some c
                     \<and> clock w - timestamp c < ttl c)"
      and down: "\<forall>w1. \<exists>e w'. fetchAPI lib PublishedArticles w1 = (Inl e, w')"
  proof (intro conjI impI allI)
    assume none: "map_of (cache (apiCache_of w)) publishedArticlesKey = None"
    then have inner: "map_of (cache (apiCache_of ?inner)) publishedArticlesKey = None" by simp
    from getPublishedArticles_down(1) [OF enabled, of lib ?inner api] down inner
    show "get_branch (getPublishedArticles cfg api lib ?inner) = Failed" by blast
    from strapiContentUtils_getSortedPosts_down(1) [OF enabled, of lib ?inner api] down inner
    have u: "\<exists>w'. strapiContentUtils_getSortedPosts cfg api lib ?inner = (Inr [], w')
        \<and> apiCache_of w' = apiCache_of w" by simp
    note s = apiCache_getSortedPosts_stores [OF inUse enabled miss u]
    from s show "get_outcome (apiCache_getSortedPosts this cfg api lib w) = Inr (CachedPosts [])"
      by simp
    from s show "get_calls (apiCache_getSortedPosts this cfg api lib w) = 1" by simp
    from s show "map_of (cache (apiCache_of (get_world (apiCache_getSortedPosts this cfg api lib w))))
            (sortedPostsKey this)
          = Some \<lparr>data = CachedPosts [],
                  timestamp = clock (get_world (apiCache_getSortedPosts this cfg api lib w)),
                  ttl = ttlOrDefault (Some (cacheTTL (options this)))
                          (defaultTTL (apiCache_of w))\<rparr>" by simp
  next
    fix c
    assume "map_of (cache (apiCache_of w)) publishedArticlesKey = Some c
              \<and> \<not> clock w - timestamp c < ttl c"
    then have inner: "map_of (cache (apiCache_of ?inner)) publishedArticlesKey = Some c"
      and old: "\<not> clock ?inner - timestamp c < ttl c" by simp_all
    from getPublishedArticles_down(2) [OF enabled, of lib ?inner c api] down inner old
    have b: "get_branch (getPublishedArticles cfg api lib ?inner) = Stale" by blast
    from strapiContentUtils_getSortedPosts_down(2) [OF enabled, of lib ?inner c api] down inner old
    have u: "\<exists>w'. strapiContentUtils_getSortedPosts cfg api lib ?inner
          = (Inr (case sortedPostsOf lib (data c) of Inr ps \<Rightarrow> ps | Inl e \<Rightarrow> []), w')
        \<and> apiCache_of w' = apiCache_of w" by simp
    note s = apiCache_getSortedPosts_stores [OF inUse enabled miss u]
    from b show "get_branch (getPublishedArticles cfg api lib ?inner) = Stale" .
    from s show "get_outcome (apiCache_getSortedPosts this cfg api lib w)
            = Inr (CachedPosts (case sortedPostsOf lib (data c) of Inr ps \<Rightarrow> ps | Inl e \<Rightarrow> []))"
      by simp
    from s show "get_calls (apiCache_getSortedPosts this cfg api lib w) = 1" by simp
    from s show "map_of (cache (apiCache_of (get_world (apiCache_getSortedPosts this cfg api lib w))))
            (sortedPostsKey this)
          = Some \<lparr>data = CachedPosts
                           (case sortedPostsOf lib (data c) of Inr ps \<Rightarrow> ps | Inl e \<Rightarrow> []),
                  timestamp = clock (get_world (apiCache_getSortedPosts this cfg api lib w)),
                  ttl = ttlOrDefault (Some (cacheTTL (options this)))
                          (defaultTTL (apiCache_of w))\<rparr>" by simp
  qed
  have single: "get_outcome (apiCache_getPostBySlug this cfg api lib slug w) = Inr (CachedPost Null)
       \<and> get_calls (apiCache_getPostBySlug this cfg api lib slug w) = 1
       \<and> map_of (cache (apiCache_of (get_world (apiCache_getPostBySlug this cfg api lib slug w))))
           (postBySlugKey this slug)
         = Some \<lparr>data = CachedPost Null,
                 timestamp = clock (get_world (apiCache_getPostBySlug this cfg api lib slug w)),
                 ttl = ttlOrDefault (Some (cacheTTL (options this))) (defaultTTL (apiCache_of w))\<rparr>"
    if miss: "\<not> (\<exists>c. map_of (cache (apiCache_of w)) (postBySlugKey this slug) = Some c
                     \<and> clock w - timestamp c < ttl c)"
      and down: "\<forall>t w1. \<exists>e w'. fetchAPI lib (ArticleBySlug slug t) w1 = (Inl e, w')"
    using apiCache_getPostBySlug_stores [OF inUse enabled miss] down by blast
  have laterPosts: "get_outcome (apiCache_getSortedPosts this cfg api' lib' w2) = Inr (data c)
          \<and> get_calls (apiCache_getSortedPosts this cfg api' lib' w2) = 0
          \<and> get_world (apiCache_getSortedPosts this cfg api' lib' w2)
              = logger_info cfg (CacheHit (sortedPostsKey this)) w2"
    if "map_of (cache (apiCache_of w2)) (sortedPostsKey this) = Some c"
      and "clock w2 - timestamp c < ttl c"
    for api' and lib' :: "('a, 'x) backend" and c w2
    using that inUse
    by (simp add: apiCache_getSortedPosts_def apiCache_get_hit [OF enabled that])
  have laterPost: "get_outcome (apiCache_getPostBySlug this cfg api' lib' slug w2) = Inr (data c)
          \<and> get_calls (apiCache_getPostBySlug this cfg api' lib' slug w2) = 0
          \<and> get_world (apiCache_getPostBySlug this cfg api' lib' slug w2)
              = logger_info cfg (CacheHit (postBySlugKey this slug)) w2"
    if "map_of (cache (apiCache_of w2)) (postBySlugKey this slug) = Some c"
      and "clock w2 - timestamp c < ttl c"
    for api' and lib' :: "('a, 'x) backend" and c w2
    using that inUse
    by (simp add: apiCache_getPostBySlug_def apiCache_get_hit [OF enabled that])
  show ?thesis
    unfolding Let_def
  proof (intro conjI allI impI; (elim conjE)?)
    show "\<exists>v w1. fetchStrapiPosts this cfg (strapiContentUtils cfg api lib) w = (Inr v, w1)"
      by (rule fetchStrapiPosts_total)
    show "\<exists>v w1. fetchStrapiPostBySlug this cfg (strapiContentUtils cfg api lib) slug w = (Inr v, w1)"
      by (rule fetchStrapiPostBySlug_total)
  qed (use apiCache_getSortedPosts_branch [of this cfg api lib w]
           apiCache_getPostBySlug_branch [of this cfg api lib slug w]
           posts single laterPosts laterPost in \<open>simp_all\<close>)
qed

text \<open>The runs of the concrete site: the keys, the production settings, and three
  requests that fail 100 ms each with waits of 500 and 1000 ms in between.\<close>

lemma production_keys:
  "publishedArticlesKey = ''published-articles''"
  "sortedPostsKey manager = ''sorted-posts:useHybridMode=false&useStrapi=true''"
  "postBySlugKey manager ''hello-world'' = ''post-by-slug:slug=hello-world&useStrapi=true''"
  by (simp_all add: publishedArticlesKey_def sortedPostsKey_def postBySlugKey_def
        generateCacheKey_def join_def manager_def newContentManager_def production_def printBool_def)

lemma production_quiet:
  "logger_info production m w = w" "logger_success production m w = w"
  by (simp_all add: logger_info_def logger_success_def production_def)

lemma production_settings:
  "useCache (options manager)" "cacheTTL (options manager) = 1800000"
  "features_enableCache production" "\<not> development_enableDebugLogs production"
  "features_enableRetry productionApi" "api_retryAttempts productionApi = 2"
  "api_retryBaseDelay productionApi = 500"
  "cache_maxSize production = 200" "cache_ttl production = 1800000"
  by (simp_all add: manager_def newContentManager_def production_def productionApi_def)

lemma strapiDown_retried:
  "retry_outcome (retryWithBackoff (fetchFunction production strapiDown) 2 500 w)
     = Inl (IsNetworkError ''Network error: fetch failed'')"
  "retry_world (retryWithBackoff (fetchFunction production strapiDown) 2 500 w)
     = \<lparr>clock = clock w + 1800,
        console = console w @ [(WarnLevel, AttemptFailed 1 500), (WarnLevel, AttemptFailed 2 1000)],
        upstream = (apiCache_of w, Suc (Suc (Suc (snd (upstream w)))))\<rparr>"
  for w :: "(PostEntry cacheValue MemoryCache \<times> nat) world"
  by (simp_all add: retryWithBackoff_def retry_loop.simps fetchFunction_def outside_def
        outside_of_def strapiDown_def isAPIClientError_def Let_def setTimeout_def
        console_warn_def apiCache_of_def)

lemma strapiDown_adapter:
  "adaptStrapiArticle strapiDown = Inr" "addNavigationInfo strapiDown = Inr"
  by (simp_all add: strapiDown_def)

lemma getPostBySlug_strapiDown:
  "apiCache_getPostBySlug manager production productionApi strapiDown ''hello-world'' site
   = \<lparr>get_outcome = Inr (CachedPost Null), get_branch = Fetched, get_calls = 1,
      get_cache = \<lparr>cache = [(postBySlugKey manager ''hello-world'',
                     \<lparr>data = CachedPost Null, timestamp = 100, ttl = 1800000\<rparr>)],
                   maxSize = 200, defaultTTL = 1800000\<rparr>,
      get_world = \<lparr>clock = 100,
                    console = [(ErrorLevel, ErrorFetchingPost ''hello-world''
                                  (IsNetworkError ''Network error: fetch failed'')),
                               (WarnLevel, PostNotFound ''hello-world'')],
                    upstream = (\<lparr>cache = [(postBySlugKey manager ''hello-world'',
                     \<lparr>data = CachedPost Null, timestamp = 100, ttl = 1800000\<rparr>)],
                   maxSize = 200, defaultTTL = 1800000\<rparr>, 1)\<rparr>\<rparr>"
  by (simp add: apiCache_getPostBySlug_def production_settings apiCache_get_def
        apiCache_get_miss_def site_def apiCache_of_def newMemoryCache_def Let_def
        production_quiet keptAs_def fetchStrapiPostBySlug_def withErrorBoundary_def
        strapiContentUtils_def strapiContentUtils_getPostBySlug_def getArticleBySlug_def
        outside_def outside_of_def strapiDown_def console_error_def logger_warn_def
        console_warn_def set_entry_def evictIfFull_def with_apiCache_def ttlOrDefault_def)

lemma getSortedPosts_strapiDown_clock:
  "clock (get_world (apiCache_getSortedPosts manager production productionApi strapiDown site))
     = 1800"
  by (simp add: apiCache_getSortedPosts_def production_settings apiCache_get_def
        apiCache_get_miss_def site_def apiCache_of_def newMemoryCache_def Let_def
        production_quiet keptAs_def production_keys fetchStrapiPosts_def withErrorBoundary_def
        strapiContentUtils_def strapiContentUtils_getSortedPosts_def getPublishedArticles_def
        strapiDown_retried console_error_def set_entry_def evictIfFull_def
        with_apiCache_def ttlOrDefault_def)

lemma getSortedPosts_after_an_hour:
  "apiCache_getSortedPosts manager production productionApi strapiDown siteAfterAnHour
   = \<lparr>get_outcome = Inr (CachedPosts [helloWorld, cachingNotes]), get_branch = Fetched,
      get_calls = 1,
      get_cache = \<lparr>cache =
            [(publishedArticlesKey,
              \<lparr>data = CachedResponse \<lparr>response_data = [helloWorld, cachingNotes]\<rparr>,
               timestamp = 0, ttl = 1800000\<rparr>),
             (sortedPostsKey manager,
              \<lparr>data = CachedPosts [helloWorld, cachingNotes], timestamp = 3601800,
               ttl = 1800000\<rparr>)],
          maxSize = 200, defaultTTL = 1800000\<rparr>,
      get_world = \<lparr>clock = 3601800,
                    console = [(WarnLevel, AttemptFailed 1 500), (WarnLevel, AttemptFailed 2 1000),
                               (WarnLevel, UsingStale publishedArticlesKey)],
                    upstream = (\<lparr>cache =
            [(publishedArticlesKey,
              \<lparr>data = CachedResponse \<lparr>response_data = [helloWorld, cachingNotes]\<rparr>,
               timestamp = 0, ttl = 1800000\<rparr>),
             (sortedPostsKey manager,
              \<lparr>data = CachedPosts [helloWorld, cachingNotes], timestamp = 3601800,
               ttl = 1800000\<rparr>)],
          maxSize = 200, defaultTTL = 1800000\<rparr>, 4)\<rparr>\<rparr>"
  by (simp add: apiCache_getSortedPosts_def production_settings apiCache_get_def
        apiCache_get_miss_def siteAfterAnHour_def apiCache_of_def Let_def production_quiet
        keptAs_def production_keys fetchStrapiPosts_def withErrorBoundary_def
        strapiContentUtils_def strapiContentUtils_getSortedPosts_def getPublishedArticles_def
        strapiDown_retried sortedPostsOf_def strapiDown_adapter
        console_error_def logger_warn_def console_warn_def set_entry_def evictIfFull_def
        with_apiCache_def ttlOrDefault_def)

lemma getPublishedArticles_after_an_hour:
  "get_branch (getPublishedArticles production productionApi strapiDown siteAfterAnHour) = Stale"
  by (simp add: production_settings apiCache_get_def apiCache_get_miss_def
        siteAfterAnHour_def apiCache_of_def Let_def production_quiet keptAs_def production_keys
        getPublishedArticles_def strapiDown_retried)

theorem content_manager_caches_failed_fetch_witness:
  "get_outcome (apiCache_getSortedPosts manager production productionApi strapiDown site)
     = Inr (CachedPosts [])
   \<and> get_calls (apiCache_getSortedPosts manager production productionApi strapiDown site) = 1
   \<and> map_of (cache (apiCache_of (get_world
          (apiCache_getSortedPosts manager production productionApi strapiDown site))))
        (sortedPostsKey manager)
      = Some \<lparr>data = CachedPosts [], timestamp = 1800, ttl = 1800000\<rparr>
   \<and> get_outcome (apiCache_getSortedPosts manager production productionApi strapiUp
        ((get_world (apiCache_getSortedPosts manager production productionApi strapiDown site))
           \<lparr>clock := 60000\<rparr>))
      = Inr (CachedPosts [])
   \<and> get_calls (apiCache_getSortedPosts manager production productionApi strapiUp
        ((get_world (apiCache_getSortedPosts manager production productionApi strapiDown site))
           \<lparr>clock := 60000\<rparr>))
      = 0
   \<and> get_branch (getPublishedArticles production productionApi strapiDown siteAfterAnHour) = Stale
   \<and> get_outcome (apiCache_getSortedPosts manager production productionApi strapiDown
        siteAfterAnHour)
      = Inr (CachedPosts [helloWorld, cachingNotes])
   \<and> get_outcome (apiCache_getPostBySlug manager production productionApi strapiDown
        ''hello-world'' site)
      = Inr (CachedPost Null)
   \<and> get_outcome (apiCache_getPostBySlug manager production productionApi strapiUp ''hello-world''
        ((get_world (apiCache_getPostBySlug manager production productionApi strapiDown
            ''hello-world'' site))\<lparr>clock := 60000\<rparr>))
      = Inr (CachedPost Null)
   \<and> get_calls (apiCache_getPostBySlug manager production productionApi strapiUp ''hello-world''
        ((get_world (apiCache_getPostBySlug manager production productionApi strapiDown
            ''hello-world'' site))\<lparr>clock := 60000\<rparr>))
      = 0"
proof -
  let ?r = "apiCache_getSortedPosts manager production productionApi strapiDown site"
  let ?s = "apiCache_getPostBySlug manager production productionApi strapiDown ''hello-world'' site"
  have down: "\<forall>w1. \<exists>e w'. fetchAPI strapiDown PublishedArticles w1 = (Inl e, w')"
    "\<forall>t w1. \<exists>e w'. fetchAPI strapiDown (ArticleBySlug ''hello-world'' t) w1 = (Inl e, w')"
    by (simp_all add: strapiDown_def)
  have empty: "cache (apiCache_of site) = []" "defaultTTL (apiCache_of site) = 1800000"
    by (simp_all add: site_def apiCache_of_def newMemoryCache_def production_settings)
  have lifetime: "ttlOrDefault (Some (cacheTTL (options manager))) 1800000 = 1800000"
    by (simp add: ttlOrDefault_def production_settings)
  note atStartup = content_manager_caches_failed_fetch [where this = manager and cfg = production
      and api = productionApi and lib = strapiDown and w = site and slug = "''hello-world''",
      OF production_settings(1) production_settings(3)]
  from atStartup have posts:
    "get_outcome ?r = Inr (CachedPosts []) \<and> get_calls ?r = 1
     \<and> map_of (cache (apiCache_of (get_world ?r))) (sortedPostsKey manager)
        = Some \<lparr>data = CachedPosts [], timestamp = clock (get_world ?r), ttl = 1800000\<rparr>"
    by (simp add: Let_def down empty lifetime)
  from atStartup have single:
    "get_outcome ?s = Inr (CachedPost Null)
     \<and> map_of (cache (apiCache_of (get_world ?s))) (postBySlugKey manager ''hello-world'')
        = Some \<lparr>data = CachedPost Null, timestamp = clock (get_world ?s), ttl = 1800000\<rparr>"
    by (simp add: Let_def down empty lifetime)
  from atStartup have laterPosts:
    "map_of (cache (apiCache_of w2)) (sortedPostsKey manager) = Some c
       \<and> clock w2 - timestamp c < ttl c \<longrightarrow>
     get_outcome (apiCache_getSortedPosts manager production productionApi strapiUp w2)
       = Inr (data c)
     \<and> get_calls (apiCache_getSortedPosts manager production productionApi strapiUp w2) = 0"
    for c w2
    by blast
  from atStartup have laterPost:
    "map_of (cache (apiCache_of w2)) (postBySlugKey manager ''hello-world'') = Some c
       \<and> clock w2 - timestamp c < ttl c \<longrightarrow>
     get_outcome (apiCache_getPostBySlug manager production productionApi strapiUp
        ''hello-world'' w2) = Inr (data c)
     \<and> get_calls (apiCache_getPostBySlug manager production productionApi strapiUp
        ''hello-world'' w2) = 0"
    for c w2
    by blast
  have slugClock: "clock (get_world ?s) = 100" by (simp add: getPostBySlug_strapiDown)
  have old: "map_of (cache (apiCache_of siteAfterAnHour)) publishedArticlesKey
      = Some \<lparr>data = CachedResponse \<lparr>response_data = [helloWorld, cachingNotes]\<rparr>,
              timestamp = 0, ttl = 1800000\<rparr>"
    "map_of (cache (apiCache_of siteAfterAnHour)) (sortedPostsKey manager)
      = Some \<lparr>data = CachedPosts [helloWorld, cachingNotes], timestamp = 0, ttl = 1800000\<rparr>"
    "clock siteAfterAnHour = 3600000"
    by (simp_all add: siteAfterAnHour_def apiCache_of_def production_keys)
  from content_manager_caches_failed_fetch [where this = manager and cfg = production
      and api = productionApi and lib = strapiDown and w = siteAfterAnHour
      and slug = "''hello-world''", OF production_settings(1) production_settings(3)]
  have stale:
    "get_branch (getPublishedArticles production productionApi strapiDown siteAfterAnHour) = Stale
     \<and> get_outcome (apiCache_getSortedPosts manager production productionApi strapiDown
          siteAfterAnHour) = Inr (CachedPosts [helloWorld, cachingNotes])"
    by (simp add: Let_def down old production_quiet sortedPostsOf_def strapiDown_adapter)
  from posts laterPosts [of "(get_world ?r)\<lparr>clock := 60000\<rparr>"
      "\<lparr>data = CachedPosts [], timestamp = clock (get_world ?r), ttl = 1800000\<rparr>"]
    single laterPost [of "(get_world ?s)\<lparr>clock := 60000\<rparr>"
      "\<lparr>data = CachedPost Null, timestamp = clock (get_world ?s), ttl = 1800000\<rparr>"]
    stale
  show ?thesis
    by (simp add: getSortedPosts_strapiDown_clock slugClock apiCache_of_def)
qed

text \<open>
  C10, as it stands, fails on the code. With Strapi down, \<^verbatim>\<open>getPostBySlug\<close> on the
  site as it starts returns and stores \<^verbatim>\<open>null\<close>, where the claim has \<^verbatim>\<open>undefined\<close>.
  An hour later, with the expired response of the first request still in \<^verbatim>\<open>apiCache\<close>,
  the read of \<^verbatim>\<open>published-articles\<close> inside \<^verbatim>\<open>getSortedPosts\<close> takes the stale-data
  path, and \<^verbatim>\<open>getSortedPosts\<close> returns and stores the two posts of that response, where
  the claim has the empty list and no stale-data path.
\<close>

theorem content_manager_fallback_counterexample:
  "get_outcome (apiCache_getPostBySlug manager production productionApi strapiDown
      ''hello-world'' site) = Inr (CachedPost Null)
   \<and> map_of (cache (apiCache_of (get_world
          (apiCache_getPostBySlug manager production productionApi strapiDown
             ''hello-world'' site))))
        (postBySlugKey manager ''hello-world'')
      = Some \<lparr>data = CachedPost Null, timestamp = 100, ttl = 1800000\<rparr>
   \<and> CachedPost Null \<noteq> (CachedPost Undefined :: PostEntry cacheValue)
   \<and> get_branch (getPublishedArticles production productionApi strapiDown siteAfterAnHour) = Stale
   \<and> get_outcome (apiCache_getSortedPosts manager production productionApi strapiDown
        siteAfterAnHour)
      = Inr (CachedPosts [helloWorld, cachingNotes])
   \<and> map_of (cache (apiCache_of (get_world
          (apiCache_getSortedPosts manager production productionApi strapiDown
             siteAfterAnHour))))
        (sortedPostsKey manager)
      = Some \<lparr>data = CachedPosts [helloWorld, cachingNotes], timestamp = 3601800,
              ttl = 1800000\<rparr>
   \<and> CachedPosts [helloWorld, cachingNotes] \<noteq> (CachedPosts [] :: PostEntry cacheValue)"
  by (simp add: getPostBySlug_strapiDown getSortedPosts_after_an_hour
        getPublishedArticles_after_an_hour apiCache_of_def production_keys)

end
